theory Spec2Isabelle
  imports Main
begin

section \<open>Data model\<close>

text \<open>
  A Go \<open>string\<close> is a sequence of bytes, here a \<open>char list\<close>.  A Go \<open>int\<close> that is only
  stored and compared (status codes, page numbers) is an \<open>int\<close>; where the 64-bit range
  matters (\<open>strconv.Atoi\<close>) the bound is written out.  A run-time panic is a value of
  type \<open>panic\<close>, and a function that can panic returns \<open>panic + 'a\<close>.
\<close>

datatype panic = NilPointerDereference | IndexOutOfRange nat nat

text \<open>
  The body of an HTTP response is a stream: the bytes that can be read from it and the
  error, if any, that ends the reading instead of a clean end of file.
\<close>

record body =
  data :: string
  read_err :: "string option"

text \<open>
  \<open>http.Header\<close> maps a key in canonical form to its values; it is an association
  list here, in which the first entry of a key is the one that counts.  All the keys the
  client uses (\<open>Link\<close>, \<open>Content-Type\<close>, \<open>Authorization\<close>, \<open>User-Agent\<close>) are
  written in canonical form in the source.
\<close>

type_synonym Header = "(string \<times> string list) list"

definition Header_Get :: "Header \<Rightarrow> string \<Rightarrow> string" where
  "Header_Get h key = (case map_of h key of Some (v # _) \<Rightarrow> v | _ \<Rightarrow> [])"


text \<open>\<open>http.Response\<close>, restricted to the fields the client reads.\<close>

record http_Response =
  StatusCode :: int
  Header :: Header
  Body :: body

record ErrorDetail =
  ErrorDetail_Field :: string
  ErrorDetail_Code :: string
  ErrorDetail_Message :: string

text \<open>\<open>ErrorResponse.Response\<close> is a pointer: \<open>None\<close> is the nil pointer.\<close>

record ErrorResponse =
  Response :: "http_Response option"
  Message :: string
  Code :: string
  RequestID :: string
  Errors :: "ErrorDetail list"

record ValidationError =
  ValidationError_Field :: string
  ValidationError_Message :: string

record RateLimitError =
  RateLimitError_ErrorResponse :: "ErrorResponse option"
  RetryAfter :: int

text \<open>
  The dynamic values of the interface type \<open>error\<close> that occur in the package: a
  \<open>*ErrorResponse\<close> (possibly a nil pointer), a \<open>*ValidationError\<close>, a
  \<open>*RateLimitError\<close>, \<open>io.EOF\<close>, and any other error (transport failures, JSON
  syntax errors, ...) identified by its text.  The nil interface value is \<open>None\<close> of
  \<open>error option\<close>.
\<close>

datatype error =
    ErrorResponsePtr "ErrorResponse option"
  | ValidationErrorPtr "ValidationError option"
  | RateLimitErrorPtr "RateLimitError option"
  | EOF
  | OtherError string

section \<open>The Go standard library functions the client calls\<close>

text \<open>
  The functions of \<open>strings\<close>, \<open>strconv\<close>, \<open>unicode/utf8\<close>, \<open>net/url\<close>,
  \<open>encoding/json\<close> and \<open>net/http\<close> that the client calls are not part of the
  repository.  They are modelled here after their documented behaviour (Go 1.23, a
  64-bit platform), as functions on byte strings.
\<close>

subsection \<open>strings\<close>

definition byte :: "char \<Rightarrow> nat" where
  "byte c = of_char c"

text \<open>
  \<open>strings.Cut(s, sep)\<close> for a separator of one byte: the text before the first
  separator, the text after it, and whether it was found.
\<close>

definition strings_Cut :: "string \<Rightarrow> char \<Rightarrow> string \<times> string \<times> bool" where
  "strings_Cut s sep =
     (case dropWhile (\<lambda>c. c \<noteq> sep) s of
        [] \<Rightarrow> (s, [], False)
      | _ # after \<Rightarrow> (takeWhile (\<lambda>c. c \<noteq> sep) s, after, True))"

text \<open>
  \<open>strings.Split(s, sep)\<close> for a separator of one byte.  The result is never empty:
  a string without the separator is returned as the only element.
\<close>

fun strings_Split :: "string \<Rightarrow> char \<Rightarrow> string list" where
  "strings_Split [] sep = [[]]"
| "strings_Split (c # s) sep =
     (if c = sep then [] # strings_Split s sep
      else (case strings_Split s sep of
              [] \<Rightarrow> [[c]]
            | x # xs \<Rightarrow> (c # x) # xs))"

text \<open>\<open>strings.Trim(s, cutset)\<close> for a cutset of ASCII bytes.\<close>

definition strings_Trim :: "string \<Rightarrow> string \<Rightarrow> string" where
  "strings_Trim s cutset =
     rev (dropWhile (\<lambda>c. c \<in> set cutset) (rev (dropWhile (\<lambda>c. c \<in> set cutset) s)))"

text \<open>
  The UTF-8 encodings of the code points with the Unicode property White_Space
  (\<open>unicode.IsSpace\<close>): tab, line feed, vertical tab, form feed, carriage return, space,
  U+0085, U+00A0, U+1680, U+2000 to U+200A, U+2028, U+2029, U+202F, U+205F, U+3000.
\<close>

definition space_encodings :: "string list" where
  "space_encodings =
     [[CHR 0x09], [CHR 0x0A], [CHR 0x0B], [CHR 0x0C], [CHR 0x0D], [CHR 0x20],
      [CHR 0xC2, CHR 0x85], [CHR 0xC2, CHR 0xA0], [CHR 0xE1, CHR 0x9A, CHR 0x80],
      [CHR 0xE2, CHR 0x80, CHR 0x80], [CHR 0xE2, CHR 0x80, CHR 0x81],
      [CHR 0xE2, CHR 0x80, CHR 0x82], [CHR 0xE2, CHR 0x80, CHR 0x83],
      [CHR 0xE2, CHR 0x80, CHR 0x84], [CHR 0xE2, CHR 0x80, CHR 0x85],
      [CHR 0xE2, CHR 0x80, CHR 0x86], [CHR 0xE2, CHR 0x80, CHR 0x87],
      [CHR 0xE2, CHR 0x80, CHR 0x88], [CHR 0xE2, CHR 0x80, CHR 0x89],
      [CHR 0xE2, CHR 0x80, CHR 0x8A], [CHR 0xE2, CHR 0x80, CHR 0xA8],
      [CHR 0xE2, CHR 0x80, CHR 0xA9], [CHR 0xE2, CHR 0x80, CHR 0xAF],
      [CHR 0xE2, CHR 0x81, CHR 0x9F], [CHR 0xE3, CHR 0x80, CHR 0x80]]"

definition has_prefix :: "string \<Rightarrow> string \<Rightarrow> bool" where
  "has_prefix s p = (take (length p) s = p)"

text \<open>
  Removing the white space in front of a string: as long as the string starts with the
  encoding of a white-space code point, that encoding is dropped.  The fuel is the
  length of the string, and each step drops at least one byte.
\<close>

fun trim_left_space :: "nat \<Rightarrow> string \<Rightarrow> string" where
  "trim_left_space 0 s = s"
| "trim_left_space (Suc n) s =
     (case find (has_prefix s) space_encodings of
        None \<Rightarrow> s
      | Some w \<Rightarrow> trim_left_space n (drop (length w) s))"

fun trim_right_space :: "nat \<Rightarrow> string \<Rightarrow> string" where
  "trim_right_space 0 s = s"
| "trim_right_space (Suc n) s =
     (case find (\<lambda>w. has_prefix (rev s) (rev w)) space_encodings of
        None \<Rightarrow> s
      | Some w \<Rightarrow> trim_right_space n (take (length s - length w) s))"

definition strings_TrimSpace :: "string \<Rightarrow> string" where
  "strings_TrimSpace s =
     (let t = trim_left_space (length s) s in trim_right_space (length t) t)"

subsection \<open>strconv\<close>

definition is_digit :: "char \<Rightarrow> bool" where
  "is_digit c = (48 \<le> byte c \<and> byte c \<le> 57)"

fun decimal :: "int \<Rightarrow> string \<Rightarrow> int" where
  "decimal acc [] = acc"
| "decimal acc (c # s) = decimal (acc * 10 + (int (byte c) - 48)) s"

text \<open>
  \<open>strconv.Atoi\<close>: an optional sign and one or more decimal digits, with a value in the
  range of a 64-bit \<open>int\<close>; anything else is an error (\<open>None\<close>).
\<close>

definition strconv_Atoi :: "string \<Rightarrow> int option" where
  "strconv_Atoi s =
     (let digits = (case s of [] \<Rightarrow> [] | c # t \<Rightarrow> if c = CHR ''-'' \<or> c = CHR ''+'' then t else s);
          n = (case s of [] \<Rightarrow> 0 | c # t \<Rightarrow> if c = CHR ''-'' then - decimal 0 digits else decimal 0 digits)
      in if digits = [] \<or> \<not> list_all is_digit digits then None
         else if n < - (2 ^ 63) \<or> 2 ^ 63 - 1 < n then None
         else Some n)"

subsection \<open>net/url\<close>

text \<open>
  A \<open>url.URL\<close>.  \<open>User\<close> is a pointer to the user information, \<open>None\<close> when the URL has
  none.
\<close>

record Userinfo =
  username :: string
  password :: string
  passwordSet :: bool

record URL =
  Scheme :: string
  Opaque :: string
  User :: "Userinfo option"
  Host :: string
  Path :: string
  RawPath :: string
  OmitHost :: bool
  ForceQuery :: bool
  RawQuery :: string
  Fragment :: string
  RawFragment :: string

definition empty_URL :: URL where
  "empty_URL = \<lparr>Scheme = [], Opaque = [], User = None, Host = [], Path = [], RawPath = [],
     OmitHost = False, ForceQuery = False, RawQuery = [], Fragment = [], RawFragment = []\<rparr>"

datatype encoding =
  encodePath | encodePathSegment | encodeHost | encodeZone | encodeUserPassword
  | encodeQueryComponent | encodeFragment

definition is_upper :: "char \<Rightarrow> bool" where
  "is_upper c = (65 \<le> byte c \<and> byte c \<le> 90)"

definition is_lower :: "char \<Rightarrow> bool" where
  "is_lower c = (97 \<le> byte c \<and> byte c \<le> 122)"

definition is_alnum :: "char \<Rightarrow> bool" where
  "is_alnum c = (is_lower c \<or> is_upper c \<or> is_digit c)"

text \<open>\<open>shouldEscape\<close>: whether a byte must be percent-encoded in the given part of a URL.\<close>

definition shouldEscape :: "char \<Rightarrow> encoding \<Rightarrow> bool" where
  "shouldEscape c mode =
     (if is_alnum c then False
      else if (mode = encodeHost \<or> mode = encodeZone) \<and>
              c \<in> set (''!$&()*+,;=:[]<>'' @ [CHR 0x27, CHR 0x22]) then False
      else if c \<in> set ''-_.~'' then False
      else if c \<in> set ''$&+,/:;=?@'' \<and> mode = encodePath then c = CHR ''?''
      else if c \<in> set ''$&+,/:;=?@'' \<and> mode = encodePathSegment then c \<in> set ''/;,?''
      else if c \<in> set ''$&+,/:;=?@'' \<and> mode = encodeUserPassword then c \<in> set ''@/?:''
      else if c \<in> set ''$&+,/:;=?@'' \<and> mode = encodeQueryComponent then True
      else if c \<in> set ''$&+,/:;=?@'' \<and> mode = encodeFragment then False
      else if mode = encodeFragment \<and> c \<in> set ''!()*'' then False
      else True)"

definition ishex :: "char \<Rightarrow> bool" where
  "ishex c = (is_digit c \<or> (97 \<le> byte c \<and> byte c \<le> 102) \<or> (65 \<le> byte c \<and> byte c \<le> 70))"

definition unhex :: "char \<Rightarrow> nat" where
  "unhex c =
     (if is_digit c then byte c - 48
      else if 97 \<le> byte c \<and> byte c \<le> 102 then byte c - 97 + 10
      else if 65 \<le> byte c \<and> byte c \<le> 70 then byte c - 65 + 10
      else 0)"

definition upperhex :: "nat \<Rightarrow> char" where
  "upperhex n = ''0123456789ABCDEF'' ! (n mod 16)"

text \<open>
  \<open>unescape\<close>: percent-decoding.  The result is an error when a \<open>%\<close> is not followed
  by two hexadecimal digits or, in a host, when a byte may not occur there.  Go checks the
  whole string before it decodes, so the error reported is the first one from the left.
\<close>

fun unescape :: "string \<Rightarrow> encoding \<Rightarrow> error + string" where
  "unescape [] mode = Inr []"
| "unescape (c # s) mode =
     (if c = CHR ''%'' then
        (case s of
           h1 # h2 # rest \<Rightarrow>
             (if \<not> ishex h1 \<or> \<not> ishex h2 then Inl (OtherError (''invalid URL escape '' @ [c, h1, h2]))
              else if mode = encodeHost \<and> unhex h1 < 8 \<and> [c, h1, h2] \<noteq> ''%25''
                then Inl (OtherError (''invalid URL escape '' @ [c, h1, h2]))
              else if mode = encodeZone \<and> [c, h1, h2] \<noteq> ''%25''
                      \<and> char_of (unhex h1 * 16 + unhex h2) \<noteq> CHR '' ''
                      \<and> shouldEscape (char_of (unhex h1 * 16 + unhex h2)) encodeHost
                then Inl (OtherError (''invalid URL escape '' @ [c, h1, h2]))
              else (case unescape rest mode of
                      Inl e \<Rightarrow> Inl e
                    | Inr t \<Rightarrow> Inr (char_of (unhex h1 * 16 + unhex h2) # t)))
         | _ \<Rightarrow> Inl (OtherError (''invalid URL escape '' @ c # s)))
      else if c = CHR ''+'' then
        (case unescape s mode of
           Inl e \<Rightarrow> Inl e
         | Inr t \<Rightarrow> Inr ((if mode = encodeQueryComponent then CHR '' '' else c) # t))
      else if (mode = encodeHost \<or> mode = encodeZone) \<and> byte c < 128 \<and> shouldEscape c encodeHost
        then Inl (OtherError (''invalid character in host name '' @ [c]))
      else (case unescape s mode of
              Inl e \<Rightarrow> Inl e
            | Inr t \<Rightarrow> Inr (c # t)))"

text \<open>\<open>escape\<close>: percent-encoding of the bytes that \<open>shouldEscape\<close> names.\<close>

definition escape :: "string \<Rightarrow> encoding \<Rightarrow> string" where
  "escape s mode =
     concat (map (\<lambda>c. if shouldEscape c mode
                       then (if c = CHR '' '' \<and> mode = encodeQueryComponent then ''+''
                             else [CHR ''%'', upperhex (byte c div 16), upperhex (byte c mod 16)])
                       else [c]) s)"

definition validEncoded :: "string \<Rightarrow> encoding \<Rightarrow> bool" where
  "validEncoded s mode =
     list_all (\<lambda>c. c \<in> set (''!$&()*+,;=:@[]%'' @ [CHR 0x27]) \<or> \<not> shouldEscape c mode) s"

definition strings_Index :: "string \<Rightarrow> char \<Rightarrow> nat option" where
  "strings_Index s c = (if c \<in> set s then Some (length (takeWhile (\<lambda>x. x \<noteq> c) s)) else None)"

definition strings_LastIndex :: "string \<Rightarrow> char \<Rightarrow> nat option" where
  "strings_LastIndex s c =
     (if c \<in> set s then Some (length s - 1 - length (takeWhile (\<lambda>x. x \<noteq> c) (rev s))) else None)"

text \<open>\<open>strings.Index(s, sub)\<close> for a separator of several bytes.\<close>

fun index_sub :: "string \<Rightarrow> string \<Rightarrow> nat option" where
  "index_sub [] sub = (if sub = [] then Some 0 else None)"
| "index_sub (c # s) sub =
     (if has_prefix (c # s) sub then Some 0 else map_option Suc (index_sub s sub))"

definition strings_ToLower :: "string \<Rightarrow> string" where
  "strings_ToLower s = map (\<lambda>c. if is_upper c then char_of (byte c + 32) else c) s"

definition stringContainsCTLByte :: "string \<Rightarrow> bool" where
  "stringContainsCTLByte s = list_ex (\<lambda>c. byte c < 32 \<or> byte c = 127) s"

text \<open>
  \<open>getScheme\<close>: splits a leading \<open>scheme:\<close> off.  The first argument is the part of
  the URL already read, the last one the whole URL.
\<close>

fun getScheme_from :: "string \<Rightarrow> string \<Rightarrow> string \<Rightarrow> error + (string \<times> string)" where
  "getScheme_from pre [] rawURL = Inr ([], rawURL)"
| "getScheme_from pre (c # s) rawURL =
     (if is_lower c \<or> is_upper c then getScheme_from (pre @ [c]) s rawURL
      else if is_digit c \<or> c = CHR ''+'' \<or> c = CHR ''-'' \<or> c = CHR ''.'' then
        (if pre = [] then Inr ([], rawURL) else getScheme_from (pre @ [c]) s rawURL)
      else if c = CHR '':'' then
        (if pre = [] then Inl (OtherError ''missing protocol scheme'') else Inr (pre, s))
      else Inr ([], rawURL))"

definition getScheme :: "string \<Rightarrow> error + (string \<times> string)" where
  "getScheme rawURL = getScheme_from [] rawURL rawURL"

definition validOptionalPort :: "string \<Rightarrow> bool" where
  "validOptionalPort port =
     (case port of
        [] \<Rightarrow> True
      | c # digits \<Rightarrow> c = CHR '':'' \<and> list_all is_digit digits)"

definition validUserinfo :: "string \<Rightarrow> bool" where
  "validUserinfo s =
     list_all (\<lambda>c. is_alnum c \<or> c \<in> set (''-._:~!$&()*+,;=%@'' @ [CHR 0x27])) s"

definition parseHost :: "string \<Rightarrow> error + string" where
  "parseHost host =
     (if has_prefix host ''['' then
        (case strings_LastIndex host CHR '']'' of
           None \<Rightarrow> Inl (OtherError ''missing ] in host'')
         | Some i \<Rightarrow>
             (if \<not> validOptionalPort (drop (i + 1) host)
                then Inl (OtherError ''invalid port after host'')
              else (case index_sub (take i host) ''%25'' of
                      Some zone \<Rightarrow>
                        (case unescape (take zone host) encodeHost of
                           Inl e \<Rightarrow> Inl e
                         | Inr host1 \<Rightarrow>
                             (case unescape (drop zone (take i host)) encodeZone of
                                Inl e \<Rightarrow> Inl e
                              | Inr host2 \<Rightarrow>
                                  (case unescape (drop i host) encodeHost of
                                     Inl e \<Rightarrow> Inl e
                                   | Inr host3 \<Rightarrow> Inr (host1 @ host2 @ host3))))
                    | None \<Rightarrow> unescape host encodeHost)))
      else (case strings_LastIndex host CHR '':'' of
              Some i \<Rightarrow>
                (if \<not> validOptionalPort (drop i host)
                   then Inl (OtherError ''invalid port after host'')
                 else unescape host encodeHost)
            | None \<Rightarrow> unescape host encodeHost))"

definition parseAuthority :: "string \<Rightarrow> error + (Userinfo option \<times> string)" where
  "parseAuthority authority =
     (case strings_LastIndex authority CHR ''@'' of
        None \<Rightarrow>
          (case parseHost authority of
             Inl e \<Rightarrow> Inl e
           | Inr host \<Rightarrow> Inr (None, host))
      | Some i \<Rightarrow>
          (case parseHost (drop (i + 1) authority) of
             Inl e \<Rightarrow> Inl e
           | Inr host \<Rightarrow>
               (let userinfo = take i authority in
                if \<not> validUserinfo userinfo then Inl (OtherError ''net/url: invalid userinfo'')
                else if CHR '':'' \<notin> set userinfo then
                  (case unescape userinfo encodeUserPassword of
                     Inl e \<Rightarrow> Inl e
                   | Inr u \<Rightarrow>
                       Inr (Some \<lparr>username = u, password = [], passwordSet = False\<rparr>, host))
                else
                  (case strings_Cut userinfo CHR '':'' of
                     (name, pass, _) \<Rightarrow>
                       (case unescape name encodeUserPassword of
                          Inl e \<Rightarrow> Inl e
                        | Inr u \<Rightarrow>
                            (case unescape pass encodeUserPassword of
                               Inl e \<Rightarrow> Inl e
                             | Inr pw \<Rightarrow>
                                 Inr (Some \<lparr>username = u, password = pw, passwordSet = True\<rparr>,
                                      host)))))))"

definition setPath :: "URL \<Rightarrow> string \<Rightarrow> error + URL" where
  "setPath u p =
     (case unescape p encodePath of
        Inl e \<Rightarrow> Inl e
      | Inr path \<Rightarrow>
          Inr (u\<lparr>Path := path, RawPath := (if escape path encodePath = p then [] else p)\<rparr>))"

definition setFragment :: "URL \<Rightarrow> string \<Rightarrow> error + URL" where
  "setFragment u f =
     (case unescape f encodeFragment of
        Inl e \<Rightarrow> Inl e
      | Inr frag \<Rightarrow>
          Inr (u\<lparr>Fragment := frag,
                 RawFragment := (if escape frag encodeFragment = f then [] else f)\<rparr>))"

text \<open>\<open>parse(rawURL, false)\<close>: a URL without its fragment.\<close>

definition url_parse :: "string \<Rightarrow> error + URL" where
  "url_parse rawURL =
     (if stringContainsCTLByte rawURL
        then Inl (OtherError ''net/url: invalid control character in URL'')
      else if rawURL = ''*'' then Inr (empty_URL\<lparr>Path := ''*''\<rparr>)
      else
        (case getScheme rawURL of
           Inl e \<Rightarrow> Inl e
         | Inr (scheme0, rest0) \<Rightarrow>
             (let scheme = strings_ToLower scheme0;
                  force = (rest0 \<noteq> [] \<and> last rest0 = CHR ''?'' \<and> count_list rest0 CHR ''?'' = 1);
                  rest = (if force then butlast rest0 else fst (strings_Cut rest0 CHR ''?''));
                  query = (if force then [] else fst (snd (strings_Cut rest0 CHR ''?'')));
                  u = empty_URL\<lparr>Scheme := scheme, ForceQuery := force, RawQuery := query\<rparr>
              in
              if \<not> has_prefix rest ''/'' \<and> scheme \<noteq> [] then Inr (u\<lparr>Opaque := rest\<rparr>)
              else if \<not> has_prefix rest ''/'' \<and> CHR '':'' \<in> set (fst (strings_Cut rest CHR ''/''))
                then Inl (OtherError ''first path segment in URL cannot contain colon'')
              else if (scheme \<noteq> [] \<or> \<not> has_prefix rest ''///'') \<and> has_prefix rest ''//'' then
                (let authority0 = drop 2 rest;
                     authority = (case strings_Index authority0 CHR ''/'' of
                                    Some i \<Rightarrow> take i authority0 | None \<Rightarrow> authority0);
                     rest' = (case strings_Index authority0 CHR ''/'' of
                                Some i \<Rightarrow> drop i authority0 | None \<Rightarrow> [])
                 in case parseAuthority authority of
                      Inl e \<Rightarrow> Inl e
                    | Inr (user, host) \<Rightarrow> setPath (u\<lparr>User := user, Host := host\<rparr>) rest')
              else setPath (u\<lparr>OmitHost := (scheme \<noteq> [] \<and> has_prefix rest ''/'')\<rparr>) rest)))"

text \<open>\<open>url.Parse\<close>.\<close>

definition url_Parse :: "string \<Rightarrow> error + URL" where
  "url_Parse rawURL =
     (case strings_Cut rawURL CHR ''#'' of
        (u, frag, _) \<Rightarrow>
          (case url_parse u of
             Inl e \<Rightarrow> Inl e
           | Inr url \<Rightarrow> if frag = [] then Inr url else setFragment url frag))"

definition EscapedPath :: "URL \<Rightarrow> string" where
  "EscapedPath u =
     (if RawPath u \<noteq> [] \<and> validEncoded (RawPath u) encodePath
         \<and> (case unescape (RawPath u) encodePath of Inl e \<Rightarrow> False | Inr p \<Rightarrow> p = Path u)
        then RawPath u
      else if Path u = ''*'' then ''*''
      else escape (Path u) encodePath)"


text \<open>
  The loop of \<open>resolvePath\<close> over the elements of the path (the pieces between
  slashes): \<open>dst\<close> is the text written so far, which starts with a slash, and \<open>first\<close>
  says that no element has been written yet.
\<close>

fun resolve_elems :: "string list \<Rightarrow> string \<Rightarrow> bool \<Rightarrow> string" where
  "resolve_elems [] dst first = dst"
| "resolve_elems (elem # elems) dst first =
     (if elem = ''.'' then resolve_elems elems dst False
      else if elem = ''..'' then
        (case strings_LastIndex (tl dst) CHR ''/'' of
           None \<Rightarrow> resolve_elems elems ''/'' True
         | Some index \<Rightarrow> resolve_elems elems (''/'' @ take index (tl dst)) first)
      else resolve_elems elems (dst @ (if first then [] else ''/'') @ elem) False)"

definition resolvePath :: "string \<Rightarrow> string \<Rightarrow> string" where
  "resolvePath base ref =
     (let full = (if ref = [] then base
                  else if hd ref \<noteq> CHR ''/'' then
                    (case strings_LastIndex base CHR ''/'' of
                       None \<Rightarrow> ref
                     | Some i \<Rightarrow> take (i + 1) base @ ref)
                  else ref)
      in if full = [] then []
         else
           (let elems = strings_Split full CHR ''/'';
                dst = resolve_elems elems ''/'' True;
                r = (if last elems = ''.'' \<or> last elems = ''..'' then dst @ ''/'' else dst)
            in if length r > 1 \<and> r ! 1 = CHR ''/'' then tl r else r))"

text \<open>
  \<open>setPath\<close> as \<open>ResolveReference\<close> calls it: the error is dropped, and the URL is
  left as it was.
\<close>

definition setPath_ignore :: "URL \<Rightarrow> string \<Rightarrow> URL" where
  "setPath_ignore u p = (case setPath u p of Inl e \<Rightarrow> u | Inr u' \<Rightarrow> u')"

definition ResolveReference :: "URL \<Rightarrow> URL \<Rightarrow> URL" where
  "ResolveReference u ref =
     (let url = (if Scheme ref = [] then ref\<lparr>Scheme := Scheme u\<rparr> else ref) in
      if Scheme ref \<noteq> [] \<or> Host ref \<noteq> [] \<or> User ref \<noteq> None then
        setPath_ignore url (resolvePath (EscapedPath ref) [])
      else if Opaque ref \<noteq> [] then url\<lparr>User := None, Host := [], Path := []\<rparr>
      else
        (let url1 = (if Path ref = [] \<and> \<not> ForceQuery ref \<and> RawQuery ref = [] then
                       (if Fragment ref = [] then
                          url\<lparr>RawQuery := RawQuery u, Fragment := Fragment u,
                              RawFragment := RawFragment u\<rparr>
                        else url\<lparr>RawQuery := RawQuery u\<rparr>)
                     else url)
         in if Path ref = [] \<and> Opaque u \<noteq> [] then
              url1\<lparr>Opaque := Opaque u, User := None, Host := [], Path := []\<rparr>
            else setPath_ignore (url1\<lparr>Host := Host u, User := User u\<rparr>)
                   (resolvePath (EscapedPath u) (EscapedPath ref))))"

text \<open>\<open>(*URL).Parse\<close>: parses a reference and resolves it against the receiver.\<close>

definition URL_Parse :: "URL \<Rightarrow> string \<Rightarrow> error + URL" where
  "URL_Parse u ref =
     (case url_Parse ref of
        Inl e \<Rightarrow> Inl e
      | Inr refURL \<Rightarrow> Inr (ResolveReference u refURL))"



text \<open>
  \<open>url.ParseQuery\<close>, as \<open>(*URL).Query\<close> uses it: the pairs that parse, in their order;
  a pair with a semicolon or a bad escape is dropped and the error is ignored.  The fuel
  is the length of the query.
\<close>

fun parseQuery :: "nat \<Rightarrow> string \<Rightarrow> (string \<times> string) list" where
  "parseQuery 0 query = []"
| "parseQuery (Suc n) query =
     (if query = [] then []
      else
        (case strings_Cut query CHR ''&'' of
           (pair, rest, _) \<Rightarrow>
             (if CHR '';'' \<in> set pair \<or> pair = [] then parseQuery n rest
              else
                (case strings_Cut pair CHR ''='' of
                   (k, v, _) \<Rightarrow>
                     (case unescape k encodeQueryComponent of
                        Inl e \<Rightarrow> parseQuery n rest
                      | Inr key \<Rightarrow>
                          (case unescape v encodeQueryComponent of
                             Inl e \<Rightarrow> parseQuery n rest
                           | Inr val \<Rightarrow> (key, val) # parseQuery n rest))))))"

definition URL_Query :: "URL \<Rightarrow> (string \<times> string) list" where
  "URL_Query u = parseQuery (length (RawQuery u)) (RawQuery u)"

text \<open>\<open>Values.Get\<close>: the first value stored under the key, the empty string without one.\<close>

definition Values_Get :: "(string \<times> string) list \<Rightarrow> string \<Rightarrow> string" where
  "Values_Get v key = (case map_of v key of None \<Rightarrow> [] | Some x \<Rightarrow> x)"

subsection \<open>unicode/utf8\<close>

definition RuneError :: nat where
  "RuneError = 0xFFFD"

definition is_cont :: "char \<Rightarrow> bool" where
  "is_cont c = (0x80 \<le> byte c \<and> byte c \<le> 0xBF)"

text \<open>
  \<open>utf8.DecodeRune\<close>: the first code point of a byte string and the number of bytes of
  its encoding; \<open>(RuneError, 1)\<close> when the string does not start with a well-formed
  encoding (overlong forms, surrogates and values above U+10FFFF are not well-formed).
\<close>

fun utf8_DecodeRune :: "string \<Rightarrow> nat \<times> nat" where
  "utf8_DecodeRune [] = (RuneError, 0)"
| "utf8_DecodeRune (c0 # s) =
     (if byte c0 < 0x80 then (byte c0, 1)
      else if byte c0 < 0xC2 then (RuneError, 1)
      else if byte c0 < 0xE0 then
        (case s of
           c1 # _ \<Rightarrow>
             (if is_cont c1 then ((byte c0 - 0xC0) * 64 + (byte c1 - 0x80), 2)
              else (RuneError, 1))
         | _ \<Rightarrow> (RuneError, 1))
      else if byte c0 < 0xF0 then
        (case s of
           c1 # c2 # _ \<Rightarrow>
             (if (if byte c0 = 0xE0 then 0xA0 else 0x80) \<le> byte c1
                 \<and> byte c1 \<le> (if byte c0 = 0xED then 0x9F else 0xBF) \<and> is_cont c2
              then ((byte c0 - 0xE0) * 4096 + (byte c1 - 0x80) * 64 + (byte c2 - 0x80), 3)
              else (RuneError, 1))
         | _ \<Rightarrow> (RuneError, 1))
      else if byte c0 < 0xF5 then
        (case s of
           c1 # c2 # c3 # _ \<Rightarrow>
             (if (if byte c0 = 0xF0 then 0x90 else 0x80) \<le> byte c1
                 \<and> byte c1 \<le> (if byte c0 = 0xF4 then 0x8F else 0xBF)
                 \<and> is_cont c2 \<and> is_cont c3
              then ((byte c0 - 0xF0) * 262144 + (byte c1 - 0x80) * 4096
                      + (byte c2 - 0x80) * 64 + (byte c3 - 0x80), 4)
              else (RuneError, 1))
         | _ \<Rightarrow> (RuneError, 1))
      else (RuneError, 1))"

text \<open>
  \<open>utf8.EncodeRune\<close> (\<open>utf8.AppendRune\<close>): the encoding of a code point; a surrogate
  or a value above U+10FFFF is encoded as U+FFFD.
\<close>

definition utf8_EncodeRune :: "nat \<Rightarrow> string" where
  "utf8_EncodeRune r =
     (if r < 0x80 then [char_of r]
      else if r < 0x800 then [char_of (0xC0 + r div 64), char_of (0x80 + r mod 64)]
      else if (0xD800 \<le> r \<and> r \<le> 0xDFFF) \<or> 0x10FFFF < r then [CHR 0xEF, CHR 0xBF, CHR 0xBD]
      else if r < 0x10000 then
        [char_of (0xE0 + r div 4096), char_of (0x80 + (r div 64) mod 64),
         char_of (0x80 + r mod 64)]
      else
        [char_of (0xF0 + r div 262144), char_of (0x80 + (r div 4096) mod 64),
         char_of (0x80 + (r div 64) mod 64), char_of (0x80 + r mod 64)])"

subsection \<open>encoding/json: reading\<close>

text \<open>
  A JSON document.  A number keeps its literal text; a string holds the bytes it denotes,
  after the escapes have been resolved; an object keeps its members in the order of the
  text, repeated keys included.
\<close>

datatype json =
    JNull
  | JBool bool
  | JNumber string
  | JString string
  | JArray "json list"
  | JObject "(string \<times> json) list"

definition is_ws :: "char \<Rightarrow> bool" where
  "is_ws c = (c = CHR '' '' \<or> c = CHR 0x09 \<or> c = CHR 0x0D \<or> c = CHR 0x0A)"

definition skip_ws :: "string \<Rightarrow> string" where
  "skip_ws s = dropWhile is_ws s"

text \<open>\<open>getu4\<close>: the value of a leading escape \<open>\uXXXX\<close>, if the string starts with one.\<close>

definition getu4 :: "string \<Rightarrow> nat option" where
  "getu4 s =
     (case s of
        b # u # h1 # h2 # h3 # h4 # _ \<Rightarrow>
          (if b = CHR 0x5C \<and> u = CHR ''u'' \<and> ishex h1 \<and> ishex h2 \<and> ishex h3 \<and> ishex h4
           then Some (((unhex h1 * 16 + unhex h2) * 16 + unhex h3) * 16 + unhex h4)
           else None)
      | _ \<Rightarrow> None)"

definition simple_escape :: "char \<Rightarrow> char option" where
  "simple_escape e =
     (if e = CHR 0x22 \<or> e = CHR 0x5C \<or> e = CHR ''/'' then Some e
      else if e = CHR ''b'' then Some (CHR 0x08)
      else if e = CHR ''f'' then Some (CHR 0x0C)
      else if e = CHR ''n'' then Some (CHR 0x0A)
      else if e = CHR ''r'' then Some (CHR 0x0D)
      else if e = CHR ''t'' then Some (CHR 0x09)
      else None)"

definition utf16_DecodeRune :: "nat \<Rightarrow> nat \<Rightarrow> nat" where
  "utf16_DecodeRune r1 r2 =
     (if 0xD800 \<le> r1 \<and> r1 < 0xDC00 \<and> 0xDC00 \<le> r2 \<and> r2 < 0xE000
      then (r1 - 0xD800) * 1024 + (r2 - 0xDC00) + 0x10000
      else RuneError)"

definition cons_result :: "string \<Rightarrow> (string \<times> string) option \<Rightarrow> (string \<times> string) option" where
  "cons_result pre r = map_option (\<lambda>(t, rest). (pre @ t, rest)) r"

text \<open>
  A string literal after its opening quote: the bytes it denotes and the text after its
  closing quote.  It follows the scanner (a control character, an unknown escape or a
  missing closing quote is a syntax error) and \<open>unquoteBytes\<close> (an escape becomes the
  encoding of its code point, a surrogate pair one code point, a lone surrogate and
  every byte that is not well-formed UTF-8 the encoding of U+FFFD).
\<close>

function string_literal :: "string \<Rightarrow> (string \<times> string) option" where
  "string_literal [] = None"
| "string_literal (c # s) =
     (if c = CHR 0x22 then Some ([], s)
      else if byte c < 0x20 then None
      else if c = CHR 0x5C then
        (case s of
           [] \<Rightarrow> None
         | e # s' \<Rightarrow>
             (if e = CHR ''u'' then
                (case getu4 (c # s) of
                   None \<Rightarrow> None
                 | Some rr \<Rightarrow>
                     (if 0xD800 \<le> rr \<and> rr < 0xE000 then
                        (case getu4 (drop 4 s') of
                           None \<Rightarrow> cons_result (utf8_EncodeRune RuneError) (string_literal (drop 4 s'))
                         | Some rr1 \<Rightarrow>
                             (if utf16_DecodeRune rr rr1 \<noteq> RuneError
                              then cons_result (utf8_EncodeRune (utf16_DecodeRune rr rr1))
                                     (string_literal (drop 10 s'))
                              else cons_result (utf8_EncodeRune RuneError)
                                     (string_literal (drop 4 s'))))
                      else cons_result (utf8_EncodeRune rr) (string_literal (drop 4 s'))))
              else (case simple_escape e of
                      None \<Rightarrow> None
                    | Some b \<Rightarrow> cons_result [b] (string_literal s'))))
      else if byte c < 0x80 then cons_result [c] (string_literal s)
      else cons_result (utf8_EncodeRune (fst (utf8_DecodeRune (c # s))))
             (string_literal (drop (snd (utf8_DecodeRune (c # s)) - 1) s)))"
  by pat_completeness auto
termination
  by (relation "measure length") auto

text \<open>
  A number literal: an optional minus sign, \<open>0\<close> or a digit from 1 to 9 followed by
  digits, an optional fraction (a point and at least one digit), an optional exponent
  (\<open>e\<close> or \<open>E\<close>, an optional sign, at least one digit).  The result is the literal and
  the text after it.
\<close>

definition number_literal :: "string \<Rightarrow> (string \<times> string) option" where
  "number_literal s =
     (let sign = (if s \<noteq> [] \<and> hd s = CHR ''-'' then ''-'' else []);
          s1 = drop (length sign) s;
          intpart = (if s1 \<noteq> [] \<and> hd s1 = CHR ''0'' then ''0'' else takeWhile is_digit s1);
          s2 = drop (length intpart) s1;
          fracdigits = (if s2 \<noteq> [] \<and> hd s2 = CHR ''.'' then takeWhile is_digit (tl s2) else []);
          frac = (if s2 \<noteq> [] \<and> hd s2 = CHR ''.'' then CHR ''.'' # fracdigits else []);
          s3 = drop (length frac) s2;
          hasexp = (s3 \<noteq> [] \<and> (hd s3 = CHR ''e'' \<or> hd s3 = CHR ''E''));
          esign = (if hasexp \<and> tl s3 \<noteq> [] \<and> (hd (tl s3) = CHR ''+'' \<or> hd (tl s3) = CHR ''-'')
                   then [hd (tl s3)] else []);
          expdigits = (if hasexp then takeWhile is_digit (drop (1 + length esign) s3) else []);
          ex = (if hasexp then hd s3 # esign @ expdigits else []);
          s4 = drop (length ex) s3
      in if intpart = [] then None
         else if frac \<noteq> [] \<and> fracdigits = [] then None
         else if hasexp \<and> expdigits = [] then None
         else Some (sign @ intpart @ frac @ ex, s4))"

definition maxNestingDepth :: nat where
  "maxNestingDepth = 10000"

text \<open>
  The elements of an array after the first one, up to the closing bracket: \<open>pv\<close> reads
  one value, \<open>acc\<close> holds the elements read so far, and the first argument after \<open>pv\<close>
  is fuel for the loop.  \<open>None\<close> is a syntax error.
\<close>

definition elems_step ::
  "(string \<Rightarrow> (json \<times> string) option) \<Rightarrow> (json list \<Rightarrow> string \<Rightarrow> (json \<times> string) option)
   \<Rightarrow> json list \<Rightarrow> string \<Rightarrow> (json \<times> string) option" where
  "elems_step pv loop acc s =
     (case s of
        [] \<Rightarrow> None
      | c # t \<Rightarrow>
          (if c = CHR '']'' then Some (JArray acc, t)
           else if c = CHR '','' then
             (case pv t of
                None \<Rightarrow> None
              | Some (v, rest) \<Rightarrow> loop (acc @ [v]) rest)
           else None))"

primrec parse_elems ::
  "(string \<Rightarrow> (json \<times> string) option) \<Rightarrow> nat \<Rightarrow> json list \<Rightarrow> string \<Rightarrow> (json \<times> string) option" where
  "parse_elems pv 0 acc s = None"
| "parse_elems pv (Suc n) acc s = elems_step pv (parse_elems pv n) acc (skip_ws s)"

text \<open>
  The members of an object: \<open>member_step\<close> reads one member (a string, a colon, a
  value) and goes on with \<open>loop\<close>, which expects a comma and a further member, or the
  closing brace.
\<close>

definition member_step ::
  "(string \<Rightarrow> (json \<times> string) option) \<Rightarrow> ((string \<times> json) list \<Rightarrow> string \<Rightarrow> (json \<times> string) option)
   \<Rightarrow> (string \<times> json) list \<Rightarrow> string \<Rightarrow> (json \<times> string) option" where
  "member_step pv loop acc s =
     (case s of
        [] \<Rightarrow> None
      | c # t \<Rightarrow>
          (if c = CHR 0x22 then
             (case string_literal t of
                None \<Rightarrow> None
              | Some (key, rest) \<Rightarrow>
                  (case skip_ws rest of
                     [] \<Rightarrow> None
                   | c' # t' \<Rightarrow>
                       (if c' = CHR '':'' then
                          (case pv t' of
                             None \<Rightarrow> None
                           | Some (v, rest') \<Rightarrow> loop (acc @ [(key, v)]) rest')
                        else None)))
           else None))"

definition members_step ::
  "((string \<times> json) list \<Rightarrow> string \<Rightarrow> (json \<times> string) option)
   \<Rightarrow> (string \<times> json) list \<Rightarrow> string \<Rightarrow> (json \<times> string) option" where
  "members_step next_member acc s =
     (case s of
        [] \<Rightarrow> None
      | c # t \<Rightarrow>
          (if c = CHR ''}'' then Some (JObject acc, t)
           else if c = CHR '','' then next_member acc (skip_ws t)
           else None))"

primrec parse_members ::
  "(string \<Rightarrow> (json \<times> string) option) \<Rightarrow> nat \<Rightarrow> (string \<times> json) list \<Rightarrow> string \<Rightarrow> (json \<times> string) option" where
  "parse_members pv 0 acc s = None"
| "parse_members pv (Suc n) acc s =
     members_step (member_step pv (parse_members pv n)) acc (skip_ws s)"

text \<open>
  One JSON value at the start of a text, with the text after it.  \<open>pv\<close> reads a value
  inside an array or an object, \<open>n\<close> is the fuel of the loops over elements and
  members, \<open>d\<close> the number of arrays and objects that are open; opening more than
  \<open>maxNestingDepth\<close> of them is a syntax error.
\<close>

definition value_step ::
  "(string \<Rightarrow> (json \<times> string) option) \<Rightarrow> nat \<Rightarrow> nat \<Rightarrow> string \<Rightarrow> (json \<times> string) option" where
  "value_step pv n d s =
     (case s of
        [] \<Rightarrow> None
      | c # t \<Rightarrow>
          (if c = CHR ''{'' then
             (if maxNestingDepth < d + 1 then None
              else (case skip_ws t of
                      [] \<Rightarrow> None
                    | c' # t' \<Rightarrow>
                        (if c' = CHR ''}'' then Some (JObject [], t')
                         else member_step pv (parse_members pv n) [] (c' # t'))))
           else if c = CHR ''['' then
             (if maxNestingDepth < d + 1 then None
              else (case skip_ws t of
                      [] \<Rightarrow> None
                    | c' # t' \<Rightarrow>
                        (if c' = CHR '']'' then Some (JArray [], t')
                         else (case pv (c' # t') of
                                 None \<Rightarrow> None
                               | Some (v, rest) \<Rightarrow> parse_elems pv n [v] rest))))
           else if c = CHR 0x22 then map_option (\<lambda>(x, rest). (JString x, rest)) (string_literal t)
           else if c = CHR ''-'' \<or> is_digit c then
             map_option (\<lambda>(x, rest). (JNumber x, rest)) (number_literal (c # t))
           else if has_prefix (c # t) ''true'' then Some (JBool True, drop 4 (c # t))
           else if has_prefix (c # t) ''false'' then Some (JBool False, drop 5 (c # t))
           else if has_prefix (c # t) ''null'' then Some (JNull, drop 4 (c # t))
           else None))"

primrec parse_value :: "nat \<Rightarrow> nat \<Rightarrow> string \<Rightarrow> (json \<times> string) option" where
  "parse_value 0 d s = None"
| "parse_value (Suc n) d s = value_step (parse_value n (d + 1)) n d (skip_ws s)"

text \<open>
  A whole text as one JSON document (\<open>checkValid\<close>): one value with nothing but white
  space around it.  The fuel is the length of the text and one more: every nested value
  and every element or member takes at least one byte.
\<close>

definition json_parse :: "string \<Rightarrow> json option" where
  "json_parse s =
     (case parse_value (length s + 1) 0 s of
        None \<Rightarrow> None
      | Some (v, rest) \<Rightarrow> if skip_ws rest = [] then Some v else None)"

text \<open>
  The name under which a key is compared when no field has exactly its name
  (\<open>foldName\<close>): ASCII letters in upper case, U+017F (long s) as \<open>S\<close> and U+212A (Kelvin
  sign) as \<open>K\<close>.  Every other code point outside ASCII folds to a code point outside
  ASCII and is kept here as it is; no field name of the package contains one.
\<close>

function foldName :: "string \<Rightarrow> string" where
  "foldName [] = []"
| "foldName (c # s) =
     (if byte c < 0x80 then (if is_lower c then char_of (byte c - 32) else c) # foldName s
      else (if fst (utf8_DecodeRune (c # s)) = 0x17F then ''S''
            else if fst (utf8_DecodeRune (c # s)) = 0x212A then ''K''
            else utf8_EncodeRune (fst (utf8_DecodeRune (c # s))))
           @ foldName (drop (snd (utf8_DecodeRune (c # s)) - 1) s))"
  by pat_completeness auto
termination
  by (relation "measure length") auto

text \<open>
  The field of a struct that a key of a JSON object is stored in, given the JSON names
  of the fields in their order: the field with exactly that name, or else the first one
  with the same folded name.
\<close>

definition find_field :: "string list \<Rightarrow> string \<Rightarrow> string option" where
  "find_field names key =
     (if key \<in> set names then Some key
      else find (\<lambda>n. foldName n = foldName key) names)"

text \<open>
  Storing a JSON value in a field of type \<open>string\<close>: a string is stored, \<open>null\<close>
  leaves the field as it is, anything else is a type error (\<open>True\<close> in the first
  component) that leaves the field as it is and does not stop the decoding.
\<close>

definition store_string :: "json \<Rightarrow> string \<Rightarrow> bool \<times> string" where
  "store_string v old =
     (case v of JString x \<Rightarrow> (False, x) | JNull \<Rightarrow> (False, old) | _ \<Rightarrow> (True, old))"

definition zero_ErrorDetail :: ErrorDetail where
  "zero_ErrorDetail = \<lparr>ErrorDetail_Field = [], ErrorDetail_Code = [], ErrorDetail_Message = []\<rparr>"

definition store_ErrorDetail_member :: "string \<times> json \<Rightarrow> bool \<times> ErrorDetail \<Rightarrow> bool \<times> ErrorDetail" where
  "store_ErrorDetail_member kv st =
     (case find_field [''field'', ''code'', ''message''] (fst kv) of
        None \<Rightarrow> st
      | Some f \<Rightarrow>
          (if f = ''field'' then
             (fst st \<or> fst (store_string (snd kv) (ErrorDetail_Field (snd st))),
              (snd st)\<lparr>ErrorDetail_Field := snd (store_string (snd kv) (ErrorDetail_Field (snd st)))\<rparr>)
           else if f = ''code'' then
             (fst st \<or> fst (store_string (snd kv) (ErrorDetail_Code (snd st))),
              (snd st)\<lparr>ErrorDetail_Code := snd (store_string (snd kv) (ErrorDetail_Code (snd st)))\<rparr>)
           else
             (fst st \<or> fst (store_string (snd kv) (ErrorDetail_Message (snd st))),
              (snd st)\<lparr>ErrorDetail_Message := snd (store_string (snd kv) (ErrorDetail_Message (snd st)))\<rparr>)))"

text \<open>Decoding a JSON value into an \<open>ErrorDetail\<close>; the flag reports a type error.\<close>

definition decode_ErrorDetail :: "json \<Rightarrow> ErrorDetail \<Rightarrow> bool \<times> ErrorDetail" where
  "decode_ErrorDetail v old =
     (case v of
        JNull \<Rightarrow> (False, old)
      | JObject kvs \<Rightarrow> fold store_ErrorDetail_member kvs (False, old)
      | _ \<Rightarrow> (True, old))"

text \<open>
  Decoding a JSON value into a field of type \<open>[]ErrorDetail\<close>.  The element at
  position \<open>i\<close> of an array is decoded into the element the slice already has there,
  or into a zero element.
\<close>

definition decode_Errors :: "json \<Rightarrow> ErrorDetail list \<Rightarrow> bool \<times> ErrorDetail list" where
  "decode_Errors v old =
     (case v of
        JNull \<Rightarrow> (False, [])
      | JArray xs \<Rightarrow>
          (let rs = map (\<lambda>i. decode_ErrorDetail (xs ! i)
                                (if i < length old then old ! i else zero_ErrorDetail))
                        [0..<length xs]
           in (list_ex fst rs, map snd rs))
      | _ \<Rightarrow> (True, old))"

definition ErrorResponse_fields :: "string list" where
  "ErrorResponse_fields = [''message'', ''code'', ''request_id'', ''errors'']"

definition store_ErrorResponse_member ::
  "string \<times> json \<Rightarrow> bool \<times> ErrorResponse \<Rightarrow> bool \<times> ErrorResponse" where
  "store_ErrorResponse_member kv st =
     (case find_field ErrorResponse_fields (fst kv) of
        None \<Rightarrow> st
      | Some f \<Rightarrow>
          (if f = ''message'' then
             (fst st \<or> fst (store_string (snd kv) (Message (snd st))),
              (snd st)\<lparr>Message := snd (store_string (snd kv) (Message (snd st)))\<rparr>)
           else if f = ''code'' then
             (fst st \<or> fst (store_string (snd kv) (Code (snd st))),
              (snd st)\<lparr>Code := snd (store_string (snd kv) (Code (snd st)))\<rparr>)
           else if f = ''request_id'' then
             (fst st \<or> fst (store_string (snd kv) (RequestID (snd st))),
              (snd st)\<lparr>RequestID := snd (store_string (snd kv) (RequestID (snd st)))\<rparr>)
           else
             (fst st \<or> fst (decode_Errors (snd kv) (Errors (snd st))),
              (snd st)\<lparr>Errors := snd (decode_Errors (snd kv) (Errors (snd st)))\<rparr>)))"

text \<open>
  Decoding a JSON value into an \<open>ErrorResponse\<close>.  The field \<open>Response\<close> has the tag
  \<open>json:"-"\<close> and is never written.
\<close>

definition decode_ErrorResponse :: "json \<Rightarrow> ErrorResponse \<Rightarrow> bool \<times> ErrorResponse" where
  "decode_ErrorResponse v old =
     (case v of
        JNull \<Rightarrow> (False, old)
      | JObject kvs \<Rightarrow> fold store_ErrorResponse_member kvs (False, old)
      | _ \<Rightarrow> (True, old))"

definition SyntaxError :: error where
  "SyntaxError = OtherError ''json: syntax error''"

definition UnmarshalTypeError :: error where
  "UnmarshalTypeError = OtherError ''json: cannot unmarshal value into Go value''"

text \<open>
  \<open>json.Unmarshal(data, errorResponse)\<close>: a text that is not one JSON document is a
  syntax error and nothing is stored; otherwise the document is decoded, and the first
  type error, if any, is returned after the whole document has been decoded.
\<close>

definition json_Unmarshal_ErrorResponse :: "string \<Rightarrow> ErrorResponse \<Rightarrow> error option \<times> ErrorResponse" where
  "json_Unmarshal_ErrorResponse dat e =
     (case json_parse dat of
        None \<Rightarrow> (Some SyntaxError, e)
      | Some j \<Rightarrow>
          (if fst (decode_ErrorResponse j e) then (Some UnmarshalTypeError, snd (decode_ErrorResponse j e))
           else (None, snd (decode_ErrorResponse j e))))"

subsection \<open>encoding/json: writing\<close>









subsection \<open>net/http and io\<close>


text \<open>
  \<open>http.Request\<close>, restricted to the fields the client sets.  \<open>RequestBody\<close> holds the
  bytes of the body, \<open>None\<close> for a request without one.
\<close>

record Request =
  Method :: string
  RequestURL :: URL
  RequestHeader :: Header
  RequestBody :: "string option"





text \<open>\<open>io.ReadAll\<close>: the bytes read and the error that ended the reading, if any.\<close>

definition io_ReadAll :: "body \<Rightarrow> string \<times> error option" where
  "io_ReadAll b = (data b, map_option OtherError (read_err b))"

text \<open>
  \<open>io.Copy(w, body)\<close>, for a writer given by its state and its \<open>Write\<close> method: the
  bytes of the body are written, if there are any, and the first error of the writer or
  of the reading is returned.
\<close>

definition io_Copy ::
  "('w \<Rightarrow> string \<Rightarrow> error option \<times> 'w) \<Rightarrow> 'w \<Rightarrow> body \<Rightarrow> error option \<times> 'w" where
  "io_Copy wr w b =
     (if data b = [] then (map_option OtherError (read_err b), w)
      else (case wr w (data b) of
              (Some e, w') \<Rightarrow> (Some e, w')
            | (None, w') \<Rightarrow> (map_option OtherError (read_err b), w')))"

section \<open>The client\<close>

definition StatusBadRequest :: int where "StatusBadRequest = 400"
definition StatusUnauthorized :: int where "StatusUnauthorized = 401"
definition StatusForbidden :: int where "StatusForbidden = 403"
definition StatusNotFound :: int where "StatusNotFound = 404"
definition StatusConflict :: int where "StatusConflict = 409"
definition StatusUnprocessableEntity :: int where "StatusUnprocessableEntity = 422"
definition StatusTooManyRequests :: int where "StatusTooManyRequests = 429"
definition StatusNoContent :: int where "StatusNoContent = 204"

definition BaseURL :: string where
  "BaseURL = ''https://api.sevalla.com/v2''"

definition Version :: string where
  "Version = ''0.1.0''"

definition UserAgent :: string where
  "UserAgent = ''sevalla-go/'' @ Version"

text \<open>
  The client.  \<open>client\<close> is the \<open>*http.Client\<close>, given by what its method \<open>Do\<close> returns
  for a request (the response, or the error of the transport); \<open>baseURL\<close> is a
  \<open>*url.URL\<close>.  \<open>None\<close> is the nil pointer in both.  The five service handles only
  point back to the client and are left out.
\<close>

record Client =
  client :: "(Request \<Rightarrow> error + http_Response) option"
  baseURL :: "URL option"
  apiKey :: string
  userAgent :: string

type_synonym ClientOption = "Client \<Rightarrow> Client"

definition WithAPIKey :: "string \<Rightarrow> ClientOption" where
  "WithAPIKey key = (\<lambda>c. c\<lparr>apiKey := key\<rparr>)"

definition WithHTTPClient :: "(Request \<Rightarrow> error + http_Response) option \<Rightarrow> ClientOption" where
  "WithHTTPClient cl = (\<lambda>c. c\<lparr>client := cl\<rparr>)"

definition WithBaseURL :: "string \<Rightarrow> ClientOption" where
  "WithBaseURL url =
     (\<lambda>c. case url_Parse url of
             Inr u \<Rightarrow> c\<lparr>baseURL := Some u\<rparr>
           | Inl err \<Rightarrow> c)"

definition WithUserAgent :: "string \<Rightarrow> ClientOption" where
  "WithUserAgent ua = (\<lambda>c. c\<lparr>userAgent := ua\<rparr>)"

text \<open>
  \<open>NewClient\<close>.  Its first argument stands for the \<open>http.Client\<close> with the default
  timeout that it creates, that is, for the network.  The result of parsing \<open>BaseURL\<close>
  is stored without a look at the error.
\<close>

definition NewClient :: "(Request \<Rightarrow> error + http_Response) \<Rightarrow> ClientOption list \<Rightarrow> Client" where
  "NewClient default_client opts =
     fold (\<lambda>opt c. opt c) opts
       \<lparr>client = Some default_client,
        baseURL = (case url_Parse BaseURL of Inr u \<Rightarrow> Some u | Inl err \<Rightarrow> None),
        apiKey = [],
        userAgent = UserAgent\<rparr>"




text \<open>
  \<open>time.Time\<close> as seconds and nanoseconds; \<open>Time 0 0\<close> is the zero value.
\<close>

datatype Time = Time int int

record Rate =
  Limit :: int
  Remaining :: int
  Reset :: Time

text \<open>
  The response envelope.  \<open>HTTPResponse\<close> is the embedded \<open>*http.Response\<close>.
\<close>

record Response =
  HTTPResponse :: http_Response
  NextPage :: int
  PrevPage :: int
  FirstPage :: int
  LastPage :: int
  Rate :: Rate

text \<open>The composite literal \<open>&Response{Response: resp}\<close>: every other field is zero.\<close>

definition new_Response :: "http_Response \<Rightarrow> Response" where
  "new_Response resp =
     \<lparr>HTTPResponse = resp, NextPage = 0, PrevPage = 0, FirstPage = 0, LastPage = 0,
      Rate = \<lparr>Limit = 0, Remaining = 0, Reset = Time 0 0\<rparr>\<rparr>"

text \<open>
  The body of the loop of \<open>populatePageValues\<close> for one entry of the \<open>Link\<close> header.
  Each \<open>continue\<close> of the source returns the envelope as it is.  The index expression
  \<open>strings.Split(segments[1], "=")[1]\<close> panics when the second segment has no \<open>=\<close>.
\<close>

definition populate_link :: "Response \<Rightarrow> string \<Rightarrow> panic + Response" where
  "populate_link r link =
     (let segments = strings_Split (strings_TrimSpace link) CHR '';'' in
      if length segments \<noteq> 2 then Inr r
      else
        (case url_Parse (strings_Trim (segments ! 0) ''<>'') of
           Inl err \<Rightarrow> Inr r
         | Inr u \<Rightarrow>
             (let page = Values_Get (URL_Query u) ''page'' in
              if page = [] then Inr r
              else
                (case strconv_Atoi page of
                   None \<Rightarrow> Inr r
                 | Some pageNum \<Rightarrow>
                     (let parts = strings_Split (segments ! 1) CHR ''='' in
                      if length parts \<le> 1 then Inl (IndexOutOfRange 1 (length parts))
                      else
                        (let rel = strings_Trim (parts ! 1) [CHR 0x22] in
                         if rel = ''next'' then Inr (r\<lparr>NextPage := pageNum\<rparr>)
                         else if rel = ''prev'' then Inr (r\<lparr>PrevPage := pageNum\<rparr>)
                         else if rel = ''first'' then Inr (r\<lparr>FirstPage := pageNum\<rparr>)
                         else if rel = ''last'' then Inr (r\<lparr>LastPage := pageNum\<rparr>)
                         else Inr r))))))"

fun populate_links :: "Response \<Rightarrow> string list \<Rightarrow> panic + Response" where
  "populate_links r [] = Inr r"
| "populate_links r (link # links) =
     (case populate_link r link of
        Inl p \<Rightarrow> Inl p
      | Inr r' \<Rightarrow> populate_links r' links)"

definition populatePageValues :: "Response \<Rightarrow> panic + Response" where
  "populatePageValues r =
     (let links = Header_Get (Header (HTTPResponse r)) ''Link'' in
      if links \<noteq> [] then populate_links r (strings_Split links CHR '','')
      else Inr r)"

definition CheckResponse :: "http_Response \<Rightarrow> error option" where
  "CheckResponse r =
     (if 200 \<le> StatusCode r \<and> StatusCode r \<le> 299 then None
      else
        (let errorResponse = \<lparr>Response = Some r, Message = [], Code = [], RequestID = [],
                               Errors = []\<rparr>
         in case io_ReadAll (Body r) of
              (dat, err) \<Rightarrow>
                Some (ErrorResponsePtr (Some
                  (if err = None \<and> length dat > 0 then
                     (case json_Unmarshal_ErrorResponse dat errorResponse of
                        (Some e, errorResponse') \<Rightarrow> errorResponse'\<lparr>Message := dat\<rparr>
                      | (None, errorResponse') \<Rightarrow> errorResponse')
                   else errorResponse)))))"

text \<open>
  The destination \<open>v\<close> of \<open>Do\<close>: an \<open>io.Writer\<close> with its state, or any other value,
  into which the body is decoded.  \<open>None\<close> of \<open>dest option\<close> is the nil interface.
\<close>

datatype ('w, 'v) dest = Writer 'w | Value 'v

text \<open>
  \<open>Do\<close>.  What \<open>Write\<close> does on the writer and what \<open>json.NewDecoder(body).Decode(v)\<close>
  does on the value depend on the types of the destination; they are the arguments \<open>wr\<close>
  and \<open>dec\<close>, each returning its error and the destination after the call.  The result
  is the envelope, the error and the destination after the call, or a panic.
\<close>

definition Do ::
  "('w \<Rightarrow> string \<Rightarrow> error option \<times> 'w) \<Rightarrow> (body \<Rightarrow> 'v \<Rightarrow> error option \<times> 'v)
   \<Rightarrow> Client \<Rightarrow> Request \<Rightarrow> ('w, 'v) dest option
   \<Rightarrow> panic + (Response option \<times> error option \<times> ('w, 'v) dest option)" where
  "Do wr dec c req v =
     (case client c of
        None \<Rightarrow> Inl NilPointerDereference
      | Some send \<Rightarrow>
          (case send req of
             Inl err \<Rightarrow> Inr (None, Some err, v)
           | Inr resp \<Rightarrow>
               (case populatePageValues (new_Response resp) of
                  Inl p \<Rightarrow> Inl p
                | Inr response \<Rightarrow>
                    (case CheckResponse resp of
                       Some err \<Rightarrow> Inr (Some response, Some err, v)
                     | None \<Rightarrow>
                         (if v \<noteq> None \<and> StatusCode resp \<noteq> StatusNoContent then
                            (case v of
                               Some (Writer w) \<Rightarrow>
                                 (case io_Copy wr w (Body resp) of
                                    (err, w') \<Rightarrow> Inr (Some response, err, Some (Writer w')))
                             | Some (Value x) \<Rightarrow>
                                 (case dec (Body resp) x of
                                    (decErr, x') \<Rightarrow>
                                      Inr (Some response,
                                           (if decErr = Some EOF then None else decErr),
                                           Some (Value x')))
                             | None \<Rightarrow> Inr (Some response, None, v))
                          else Inr (Some response, None, v))))))"

section \<open>errors.go: classification predicates\<close>

text \<open>
  The type assertion \<open>e, ok := err.(*ErrorResponse)\<close>: \<open>Some e\<close> when \<open>ok\<close>.  It
  succeeds on a nil \<open>*ErrorResponse\<close> too, and fails on the nil interface and on every
  other dynamic type, a \<open>*RateLimitError\<close> included.
\<close>

fun assert_ErrorResponse :: "error option \<Rightarrow> ErrorResponse option option" where
  "assert_ErrorResponse (Some (ErrorResponsePtr e)) = Some e"
| "assert_ErrorResponse _ = None"

text \<open>The selector chain \<open>e.Response.StatusCode\<close>, which dereferences two pointers.\<close>

fun Response_StatusCode :: "ErrorResponse option \<Rightarrow> panic + int" where
  "Response_StatusCode None = Inl NilPointerDereference"
| "Response_StatusCode (Some e) =
     (case Response e of None \<Rightarrow> Inl NilPointerDereference | Some r \<Rightarrow> Inr (StatusCode r))"

definition IsNotFound :: "error option \<Rightarrow> panic + bool" where
  "IsNotFound err =
     (case assert_ErrorResponse err of
        Some e \<Rightarrow> map_sum id (\<lambda>c. c = StatusNotFound) (Response_StatusCode e)
      | None \<Rightarrow> Inr False)"

definition IsBadRequest :: "error option \<Rightarrow> panic + bool" where
  "IsBadRequest err =
     (case assert_ErrorResponse err of
        Some e \<Rightarrow> map_sum id (\<lambda>c. c = StatusBadRequest) (Response_StatusCode e)
      | None \<Rightarrow> Inr False)"

definition IsUnauthorized :: "error option \<Rightarrow> panic + bool" where
  "IsUnauthorized err =
     (case assert_ErrorResponse err of
        Some e \<Rightarrow> map_sum id (\<lambda>c. c = StatusUnauthorized) (Response_StatusCode e)
      | None \<Rightarrow> Inr False)"

definition IsForbidden :: "error option \<Rightarrow> panic + bool" where
  "IsForbidden err =
     (case assert_ErrorResponse err of
        Some e \<Rightarrow> map_sum id (\<lambda>c. c = StatusForbidden) (Response_StatusCode e)
      | None \<Rightarrow> Inr False)"

definition IsConflict :: "error option \<Rightarrow> panic + bool" where
  "IsConflict err =
     (case assert_ErrorResponse err of
        Some e \<Rightarrow> map_sum id (\<lambda>c. c = StatusConflict) (Response_StatusCode e)
      | None \<Rightarrow> Inr False)"

definition IsUnprocessableEntity :: "error option \<Rightarrow> panic + bool" where
  "IsUnprocessableEntity err =
     (case assert_ErrorResponse err of
        Some e \<Rightarrow> map_sum id (\<lambda>c. c = StatusUnprocessableEntity) (Response_StatusCode e)
      | None \<Rightarrow> Inr False)"

definition IsRateLimited :: "error option \<Rightarrow> panic + bool" where
  "IsRateLimited err =
     (case assert_ErrorResponse err of
        Some e \<Rightarrow> map_sum id (\<lambda>c. c = StatusTooManyRequests) (Response_StatusCode e)
      | None \<Rightarrow> Inr False)"

definition IsServerError :: "error option \<Rightarrow> panic + bool" where
  "IsServerError err =
     (case assert_ErrorResponse err of
        Some e \<Rightarrow> map_sum id (\<lambda>c. c \<ge> 500 \<and> c < 600) (Response_StatusCode e)
      | None \<Rightarrow> Inr False)"

definition IsClientError :: "error option \<Rightarrow> panic + bool" where
  "IsClientError err =
     (case assert_ErrorResponse err of
        Some e \<Rightarrow> map_sum id (\<lambda>c. c \<ge> 400 \<and> c < 500) (Response_StatusCode e)
      | None \<Rightarrow> Inr False)"

text \<open>
  The status code carried by an error value: defined only for a \<open>*ErrorResponse\<close> that
  points to an error whose response is present.
\<close>

fun carried_status :: "error option \<Rightarrow> int option" where
  "carried_status (Some (ErrorResponsePtr (Some e))) = map_option StatusCode (Response e)"
| "carried_status _ = None"

section \<open>Sample environments\<close>

text \<open>
  Concrete transports, destinations and requests, on which the theorems below are
  instantiated: a network that refuses every connection, a server that answers every
  request with one response, a \<open>bytes.Buffer\<close> as writer, and a destination of type
  \<open>*interface{}\<close>, which holds the JSON document decoded into it.
\<close>

definition refused :: "Request \<Rightarrow> error + http_Response" where
  "refused = (\<lambda>req. Inl (OtherError ''dial tcp: connection refused''))"

definition serve :: "http_Response \<Rightarrow> Request \<Rightarrow> error + http_Response" where
  "serve resp = (\<lambda>req. Inr resp)"

definition Buffer_Write :: "string \<Rightarrow> string \<Rightarrow> error option \<times> string" where
  "Buffer_Write buf p = (None, buf @ p)"

text \<open>
  \<open>json.NewDecoder(body).Decode(&v)\<close> for \<open>v\<close> of type \<open>interface{}\<close>: the first JSON
  value of the stream is stored; a stream with nothing but white space gives \<open>io.EOF\<close>;
  text after the value is not looked at.  A number or a literal at the very end of the
  stream is only complete once the stream has ended without an error.
\<close>

definition Decode_any :: "body \<Rightarrow> json \<Rightarrow> error option \<times> json" where
  "Decode_any b v =
     (if skip_ws (data b) = [] then
        (case read_err b of None \<Rightarrow> (Some EOF, v) | Some e \<Rightarrow> (Some (OtherError e), v))
      else
        (case parse_value (length (data b) + 1) 0 (data b) of
           None \<Rightarrow> (Some (case read_err b of None \<Rightarrow> SyntaxError | Some e \<Rightarrow> OtherError e), v)
         | Some (j, rest) \<Rightarrow>
             (case read_err b of
                None \<Rightarrow> (None, j)
              | Some e \<Rightarrow>
                  (if rest = [] \<and> (case j of JArray xs \<Rightarrow> False | JObject kvs \<Rightarrow> False
                                     | JString x \<Rightarrow> False | _ \<Rightarrow> True)
                   then (Some (OtherError e), v) else (None, j)))))"

definition sample_client :: "http_Response \<Rightarrow> Client" where
  "sample_client resp = NewClient refused [WithAPIKey ''tok'', WithHTTPClient (Some (serve resp))]"

definition sample_request :: Request where
  "sample_request =
     \<lparr>Method = ''GET'',
      RequestURL = empty_URL\<lparr>Scheme := ''https'', Host := ''api.sevalla.com'', Path := ''/applications''\<rparr>,
      RequestHeader = [(''User-Agent'', [UserAgent]), (''Authorization'', [''Bearer tok''])],
      RequestBody = None\<rparr>"

definition plain_body :: "string \<Rightarrow> body" where
  "plain_body text = \<lparr>data = text, read_err = None\<rparr>"

text \<open>Responses: a 404 with a JSON error body, a 200 whose body is not JSON, a 204 whose
  \<open>Link\<close> header has an entry without \<open>=\<close>, and a 429 with a \<open>Link\<close> header and
  rate-limit headers.\<close>

definition not_found :: http_Response where
  "not_found = \<lparr>StatusCode = 404, Header = [(''Content-Type'', [''application/json''])],
     Body = plain_body ''{\"message\":\"Application not found\",\"code\":\"RESOURCE_NOT_FOUND\"}''\<rparr>"

definition ok_not_json :: http_Response where
  "ok_not_json = \<lparr>StatusCode = 200, Header = [(''Content-Type'', [''text/html''])],
     Body = plain_body ''<html>maintenance</html>''\<rparr>"

definition no_content_bad_link :: http_Response where
  "no_content_bad_link = \<lparr>StatusCode = 204,
     Header = [(''Link'', [''<https://api.sevalla.com/applications?page=2>; rel''])],
     Body = plain_body []\<rparr>"

definition too_many_requests :: http_Response where
  "too_many_requests = \<lparr>StatusCode = 429,
     Header = [(''Link'', [''<https://api.sevalla.com/applications?page=2>; rel=\"next\"'']),
               (''X-Ratelimit-Limit'', [''100'']), (''X-Ratelimit-Remaining'', [''0'']),
               (''X-Ratelimit-Reset'', [''1700000000''])],
     Body = plain_body ''{\"message\":\"Too many requests\"}''\<rparr>"

section \<open>Plain paths and the example of the specification\<close>






section \<open>The documented shape of an error body\<close>

text \<open>
  The shape of an error body as the specification documents it, on the parsed JSON
  document: an object with distinct member names; a member \<open>message\<close> that is a string;
  members \<open>code\<close> and \<open>request_id\<close> that are strings when present; a member \<open>errors\<close>
  that, when present, is a list of objects whose members \<open>field\<close>, \<open>code\<close> and
  \<open>message\<close> are strings.  Any other member must have a name that matches no field name
  when the case of letters is ignored, since the decoder would store it in that field.
  \<open>string_member\<close> is the value of a string member of an object, empty without one.
\<close>

definition is_JString :: "json \<Rightarrow> bool" where
  "is_JString j = (case j of JString x \<Rightarrow> True | _ \<Rightarrow> False)"

definition string_member :: "(string \<times> json) list \<Rightarrow> string \<Rightarrow> string" where
  "string_member kvs k = (case map_of kvs k of Some (JString x) \<Rightarrow> x | _ \<Rightarrow> [])"

definition detail_member_ok :: "string \<times> json \<Rightarrow> bool" where
  "detail_member_ok kv =
     (if fst kv \<in> set [''field'', ''code'', ''message''] then is_JString (snd kv)
      else find_field [''field'', ''code'', ''message''] (fst kv) = None)"

definition conforming_detail :: "json \<Rightarrow> bool" where
  "conforming_detail j = (case j of JObject kvs \<Rightarrow> list_all detail_member_ok kvs | _ \<Rightarrow> False)"

definition member_ok :: "string \<times> json \<Rightarrow> bool" where
  "member_ok kv =
     (if fst kv \<in> set [''message'', ''code'', ''request_id''] then is_JString (snd kv)
      else if fst kv = ''errors'' then
        (case snd kv of JArray xs \<Rightarrow> list_all conforming_detail xs | _ \<Rightarrow> False)
      else find_field ErrorResponse_fields (fst kv) = None)"

definition conforming_error_body :: "json \<Rightarrow> bool" where
  "conforming_error_body j =
     (case j of
        JObject kvs \<Rightarrow>
          distinct (map fst kvs) \<and> list_all member_ok kvs \<and> ''message'' \<in> set (map fst kvs)
      | _ \<Rightarrow> False)"

text \<open>A 500 response whose body is a JSON object without any member of the shape.\<close>

definition error_other_shape :: http_Response where
  "error_other_shape = \<lparr>StatusCode = 500, Header = [(''Content-Type'', [''application/json''])],
     Body = plain_body ''{\"error\":\"boom\"}''\<rparr>"

section \<open>Verified properties\<close>

subsection \<open>What the parsing of the Link header leaves alone\<close>

lemma populate_link_frame:
  "populate_link r link = Inr r' \<Longrightarrow> HTTPResponse r' = HTTPResponse r \<and> Rate r' = Rate r"
  unfolding populate_link_def Let_def
  by (auto split: if_splits sum.splits option.splits)

lemma populate_links_frame:
  "populate_links r links = Inr r' \<Longrightarrow> HTTPResponse r' = HTTPResponse r \<and> Rate r' = Rate r"
proof (induction links arbitrary: r)
  case Nil
  then show ?case by simp
next
  case (Cons link links)
  from Cons.prems obtain r1 where step: "populate_link r link = Inr r1"
    and rest: "populate_links r1 links = Inr r'"
    by (auto split: sum.splits)
  from Cons.IH [OF rest] populate_link_frame [OF step] show ?case by simp
qed

lemma populatePageValues_frame:
  "populatePageValues r = Inr r' \<Longrightarrow> HTTPResponse r' = HTTPResponse r \<and> Rate r' = Rate r"
  unfolding populatePageValues_def Let_def
  by (auto split: if_splits dest: populate_links_frame)

lemma populatePageValues_no_Link:
  "Header_Get (Header (HTTPResponse r)) ''Link'' = [] \<Longrightarrow> populatePageValues r = Inr r"
  by (simp add: populatePageValues_def)

subsection \<open>The classification of the status code\<close>

lemma CheckResponse_success:
  "200 \<le> StatusCode r \<Longrightarrow> StatusCode r \<le> 299 \<Longrightarrow> CheckResponse r = None"
  by (simp add: CheckResponse_def)

lemma store_member_Response:
  "Response (snd (store_ErrorResponse_member kv st)) = Response (snd st)"
  unfolding store_ErrorResponse_member_def
  by (simp split: option.splits)

lemma fold_store_Response:
  "Response (snd (fold store_ErrorResponse_member kvs st)) = Response (snd st)"
  by (induction kvs arbitrary: st) (simp_all add: store_member_Response)

lemma decode_ErrorResponse_Response:
  "Response (snd (decode_ErrorResponse j e)) = Response e"
  unfolding decode_ErrorResponse_def
  by (cases j) (simp_all add: fold_store_Response)

lemma Unmarshal_Response:
  "Response (snd (json_Unmarshal_ErrorResponse dat e)) = Response e"
  unfolding json_Unmarshal_ErrorResponse_def
  by (simp add: decode_ErrorResponse_Response split: option.splits)

lemma CheckResponse_failure:
  assumes "\<not> (200 \<le> StatusCode r \<and> StatusCode r \<le> 299)"
  shows "\<exists>e. CheckResponse r = Some (ErrorResponsePtr (Some e)) \<and> Response e = Some r"
proof -
  let ?e0 = "\<lparr>Response = Some r, Message = [], Code = [], RequestID = [], Errors = []\<rparr>"
  have "Response (snd (json_Unmarshal_ErrorResponse dat ?e0)) = Some r" for dat
    by (simp add: Unmarshal_Response)
  then have "\<And>dat x y. json_Unmarshal_ErrorResponse dat ?e0 = (x, y) \<Longrightarrow> Response y = Some r"
    by (metis snd_conv)
  with assms show ?thesis
    unfolding CheckResponse_def Let_def
    by (auto split: prod.splits option.splits)
qed

text \<open>
  Once a response has been received and the envelope has been built, \<open>Do\<close> is the
  classification of the status code followed by the reading of the body.
\<close>

lemma Do_received:
  assumes "client c = Some send" "send req = Inr resp"
    and "populatePageValues (new_Response resp) = Inr response"
  shows "Do wr dec c req v =
     (case CheckResponse resp of
        Some err \<Rightarrow> Inr (Some response, Some err, v)
      | None \<Rightarrow>
          (if v \<noteq> None \<and> StatusCode resp \<noteq> StatusNoContent then
             (case v of
                Some (Writer w) \<Rightarrow>
                  (case io_Copy wr w (Body resp) of
                     (err, w') \<Rightarrow> Inr (Some response, err, Some (Writer w')))
              | Some (Value x) \<Rightarrow>
                  (case dec (Body resp) x of
                     (decErr, x') \<Rightarrow>
                       Inr (Some response, (if decErr = Some EOF then None else decErr),
                            Some (Value x')))
              | None \<Rightarrow> Inr (Some response, None, v))
           else Inr (Some response, None, v)))"
  using assms unfolding Do_def by simp

lemma Do_panics:
  assumes "client c = Some send" "send req = Inr resp"
    and "populatePageValues (new_Response resp) = Inl p"
  shows "Do wr dec c req v = Inl p"
  using assms unfolding Do_def by simp

lemma sample_client_client: "client (sample_client resp) = Some (serve resp)"
  by (simp add: sample_client_def NewClient_def WithAPIKey_def WithHTTPClient_def)


subsection \<open>The classification predicates\<close>

lemma Response_StatusCode_carried:
  "Response_StatusCode e = Inr c \<longleftrightarrow> carried_status (Some (ErrorResponsePtr e)) = Some c"
  by (cases e) (auto split: option.splits)

lemma classify_true_iff:
  "(case assert_ErrorResponse err of
      Some e \<Rightarrow> map_sum id P (Response_StatusCode e)
    | None \<Rightarrow> Inr False) = Inr True
   \<longleftrightarrow> (\<exists>c. carried_status err = Some c \<and> P c)"
proof (cases "assert_ErrorResponse err")
  case None
  then have "carried_status err = None"
    by (cases err rule: assert_ErrorResponse.cases) auto
  with None show ?thesis by simp
next
  case (Some e)
  then have err: "err = Some (ErrorResponsePtr e)"
    by (cases err rule: assert_ErrorResponse.cases) auto
  show ?thesis
  proof (cases "Response_StatusCode e")
    case (Inl p)
    then have "carried_status err = None"
      unfolding err by (cases e) (auto split: option.splits)
    with Some Inl show ?thesis by simp
  next
    case (Inr c)
    then have "carried_status err = Some c"
      unfolding err by (simp add: Response_StatusCode_carried)
    with Some Inr show ?thesis by simp
  qed
qed

lemma classify_other_kind:
  "\<forall>p. err \<noteq> Some (ErrorResponsePtr p) \<Longrightarrow>
   (case assert_ErrorResponse err of
      Some e \<Rightarrow> map_sum id P (Response_StatusCode e)
    | None \<Rightarrow> Inr False) = Inr False"
  by (cases err rule: assert_ErrorResponse.cases) auto

text \<open>
  C5.  Each classification predicate returns true exactly when the error is a
  \<open>*ErrorResponse\<close> that carries a status code equal to the predicate's code (404, 400,
  401, 403, 409, 422, 429) or inside its range (400 to 499 for the client-error predicate,
  500 to 599 for the server-error predicate); on every error of another kind (the nil
  error, a transport error, a validation error, a rate-limit error) it returns false.
\<close>

theorem classification_predicates:
  "(IsNotFound err = Inr True \<longleftrightarrow> carried_status err = Some 404) \<and>
   (IsBadRequest err = Inr True \<longleftrightarrow> carried_status err = Some 400) \<and>
   (IsUnauthorized err = Inr True \<longleftrightarrow> carried_status err = Some 401) \<and>
   (IsForbidden err = Inr True \<longleftrightarrow> carried_status err = Some 403) \<and>
   (IsConflict err = Inr True \<longleftrightarrow> carried_status err = Some 409) \<and>
   (IsUnprocessableEntity err = Inr True \<longleftrightarrow> carried_status err = Some 422) \<and>
   (IsRateLimited err = Inr True \<longleftrightarrow> carried_status err = Some 429) \<and>
   (IsClientError err = Inr True \<longleftrightarrow> (\<exists>c. carried_status err = Some c \<and> 400 \<le> c \<and> c \<le> 499)) \<and>
   (IsServerError err = Inr True \<longleftrightarrow> (\<exists>c. carried_status err = Some c \<and> 500 \<le> c \<and> c \<le> 599)) \<and>
   ((\<forall>p. err \<noteq> Some (ErrorResponsePtr p)) \<longrightarrow>
      IsNotFound err = Inr False \<and> IsBadRequest err = Inr False \<and>
      IsUnauthorized err = Inr False \<and> IsForbidden err = Inr False \<and>
      IsConflict err = Inr False \<and> IsUnprocessableEntity err = Inr False \<and>
      IsRateLimited err = Inr False \<and> IsClientError err = Inr False \<and>
      IsServerError err = Inr False)"
proof -
  have range4: "(\<exists>c. carried_status err = Some c \<and> 400 \<le> c \<and> c < 500)
      \<longleftrightarrow> (\<exists>c. carried_status err = Some c \<and> 400 \<le> c \<and> c \<le> 499)"
    by auto
  have range5: "(\<exists>c. carried_status err = Some c \<and> 500 \<le> c \<and> c < 600)
      \<longleftrightarrow> (\<exists>c. carried_status err = Some c \<and> 500 \<le> c \<and> c \<le> 599)"
    by auto
  show ?thesis
    unfolding IsNotFound_def IsBadRequest_def IsUnauthorized_def IsForbidden_def
      IsConflict_def IsUnprocessableEntity_def IsRateLimited_def IsClientError_def
      IsServerError_def StatusNotFound_def StatusBadRequest_def StatusUnauthorized_def
      StatusForbidden_def StatusConflict_def StatusUnprocessableEntity_def
      StatusTooManyRequests_def
    using range4 range5
    by (simp add: classify_true_iff classify_other_kind)
qed

theorem classification_predicates_witness:
  "IsNotFound (Some (OtherError ''dial tcp: connection refused'')) = Inr False \<and>
   IsClientError (Some (OtherError ''dial tcp: connection refused'')) = Inr False \<and>
   IsServerError (Some (OtherError ''dial tcp: connection refused'')) = Inr False"
  using classification_predicates [of "Some (OtherError ''dial tcp: connection refused'')"]
  by simp

subsection \<open>The claims about the pipeline\<close>

text \<open>
  C1, as stated: for every request whose send succeeds and every destination, \<open>Do\<close>
  returns a nil error when the status code is in [200,299].  This fails: a response
  with status 200 whose body is not JSON, decoded into a destination, gives the error of
  the decoder.
\<close>

theorem Do_decode_error_counterexample:
  "Do Buffer_Write Decode_any (sample_client ok_not_json) sample_request (Some (Value JNull))
   = Inr (Some (new_Response ok_not_json), Some SyntaxError, Some (Value JNull))
   \<and> StatusCode ok_not_json = 200"
  by code_simp

text \<open>
  C1, amended.  For every request whose send succeeds and whose response passes the
  parsing of the \<open>Link\<close> header: with a status code in [200,299], \<open>Do\<close> returns a nil
  error when the destination is nil or the status is 204; otherwise it returns the error
  of copying the body to the writer, or the error of decoding the body into the
  destination, where \<open>io.EOF\<close> counts as no error.  With any other status code it
  returns a \<open>*ErrorResponse\<close> whose response is the one received, so that it carries
  exactly that status code, and the destination is not touched.
\<close>

theorem Do_status_classification:
  assumes "client c = Some send" and "send req = Inr resp"
    and "populatePageValues (new_Response resp) = Inr response"
  shows "(200 \<le> StatusCode resp \<and> StatusCode resp \<le> 299 \<longrightarrow>
            (v = None \<or> StatusCode resp = 204 \<longrightarrow> Do wr dec c req v = Inr (Some response, None, v)) \<and>
            (\<forall>w. v = Some (Writer w) \<and> StatusCode resp \<noteq> 204 \<longrightarrow>
                 Do wr dec c req v =
                   Inr (Some response, fst (io_Copy wr w (Body resp)),
                        Some (Writer (snd (io_Copy wr w (Body resp)))))) \<and>
            (\<forall>x. v = Some (Value x) \<and> StatusCode resp \<noteq> 204 \<longrightarrow>
                 Do wr dec c req v =
                   Inr (Some response,
                        (if fst (dec (Body resp) x) = Some EOF then None else fst (dec (Body resp) x)),
                        Some (Value (snd (dec (Body resp) x))))))
       \<and> (\<not> (200 \<le> StatusCode resp \<and> StatusCode resp \<le> 299) \<longrightarrow>
            (\<exists>e. Do wr dec c req v = Inr (Some response, Some (ErrorResponsePtr (Some e)), v)
                 \<and> Response e = Some resp
                 \<and> carried_status (Some (ErrorResponsePtr (Some e))) = Some (StatusCode resp)))"
proof (intro conjI impI allI)
  assume ok: "200 \<le> StatusCode resp \<and> StatusCode resp \<le> 299"
  then have chk: "CheckResponse resp = None"
    by (simp add: CheckResponse_success)
  { assume "v = None \<or> StatusCode resp = 204"
    then show "Do wr dec c req v = Inr (Some response, None, v)"
      using chk by (auto simp: Do_received [OF assms] StatusNoContent_def) }
  { fix w assume "v = Some (Writer w) \<and> StatusCode resp \<noteq> 204"
    then show "Do wr dec c req v =
        Inr (Some response, fst (io_Copy wr w (Body resp)),
             Some (Writer (snd (io_Copy wr w (Body resp)))))"
      using chk by (simp add: Do_received [OF assms] StatusNoContent_def split: prod.splits) }
  { fix x assume "v = Some (Value x) \<and> StatusCode resp \<noteq> 204"
    then show "Do wr dec c req v =
        Inr (Some response,
             (if fst (dec (Body resp) x) = Some EOF then None else fst (dec (Body resp) x)),
             Some (Value (snd (dec (Body resp) x))))"
      using chk by (simp add: Do_received [OF assms] StatusNoContent_def split: prod.splits) }
next
  assume "\<not> (200 \<le> StatusCode resp \<and> StatusCode resp \<le> 299)"
  then obtain e where e: "CheckResponse resp = Some (ErrorResponsePtr (Some e))"
    and r: "Response e = Some resp"
    using CheckResponse_failure by blast
  then show "\<exists>e. Do wr dec c req v = Inr (Some response, Some (ErrorResponsePtr (Some e)), v)
      \<and> Response e = Some resp
      \<and> carried_status (Some (ErrorResponsePtr (Some e))) = Some (StatusCode resp)"
    by (auto simp: Do_received [OF assms])
qed

theorem Do_status_classification_witness:
  "\<exists>e. Do Buffer_Write Decode_any (sample_client not_found) sample_request (Some (Value JNull))
          = Inr (Some (new_Response not_found), Some (ErrorResponsePtr (Some e)), Some (Value JNull))
        \<and> Response e = Some not_found
        \<and> carried_status (Some (ErrorResponsePtr (Some e))) = Some 404"
proof -
  have 1: "client (sample_client not_found) = Some (serve not_found)"
    by (rule sample_client_client)
  have 2: "serve not_found sample_request = Inr not_found"
    by (simp add: serve_def)
  have 3: "populatePageValues (new_Response not_found) = Inr (new_Response not_found)"
    by (rule populatePageValues_no_Link) (simp add: new_Response_def not_found_def Header_Get_def)
  have 4: "StatusCode not_found = 404"
    by (simp add: not_found_def)
  show ?thesis
    using Do_status_classification [OF 1 2 3, of "Some (Value JNull)" Buffer_Write Decode_any]
    by (simp add: 4)
qed

text \<open>
  C2, as stated: the rate-limit fields of the envelope are populated from the rate-limit
  headers when those are present.  This fails: no code writes the field \<open>Rate\<close>.  A 429
  response with rate-limit headers gives an envelope whose page fields are set and whose
  rate-limit fields are zero.
\<close>

theorem Do_rate_counterexample:
  "Do Buffer_Write Decode_any (sample_client too_many_requests) sample_request None
   = Inr (Some ((new_Response too_many_requests)\<lparr>NextPage := 2\<rparr>),
          Some (ErrorResponsePtr (Some \<lparr>Response = Some too_many_requests,
             Message = ''Too many requests'', Code = [], RequestID = [], Errors = []\<rparr>)), None)
   \<and> Rate ((new_Response too_many_requests)\<lparr>NextPage := 2\<rparr>) = \<lparr>Limit = 0, Remaining = 0, Reset = Time 0 0\<rparr>
   \<and> Header_Get (Header too_many_requests) ''X-Ratelimit-Limit'' = ''100''
   \<and> Header_Get (Header too_many_requests) ''X-Ratelimit-Remaining'' = ''0''
   \<and> Header_Get (Header too_many_requests) ''X-Ratelimit-Reset'' = ''1700000000''"
  by code_simp

text \<open>
  C2, amended.  For every HTTP response received, whatever its status code, whose \<open>Link\<close>
  header is parsed without a failure, \<open>Do\<close> returns the envelope that
  \<open>populatePageValues\<close> builds from the response: it wraps the response received, its
  page fields come from the \<open>Link\<close> header, and its rate-limit fields are zero whatever
  the headers are.
\<close>

theorem Do_envelope:
  assumes "client c = Some send" and "send req = Inr resp"
    and "populatePageValues (new_Response resp) = Inr response"
  shows "(\<exists>err v'. Do wr dec c req v = Inr (Some response, err, v'))
       \<and> HTTPResponse response = resp
       \<and> Rate response = \<lparr>Limit = 0, Remaining = 0, Reset = Time 0 0\<rparr>"
proof -
  from populatePageValues_frame [OF assms(3)]
  have "HTTPResponse response = resp"
    and "Rate response = \<lparr>Limit = 0, Remaining = 0, Reset = Time 0 0\<rparr>"
    by (simp_all add: new_Response_def)
  moreover have "\<exists>err v'. Do wr dec c req v = Inr (Some response, err, v')"
    unfolding Do_received [OF assms]
    by (auto split: option.splits dest.splits prod.splits)
  ultimately show ?thesis by simp
qed

theorem Do_envelope_witness:
  "(\<exists>err v'. Do Buffer_Write Decode_any (sample_client too_many_requests) sample_request None
       = Inr (Some ((new_Response too_many_requests)\<lparr>NextPage := 2\<rparr>), err, v'))
   \<and> HTTPResponse ((new_Response too_many_requests)\<lparr>NextPage := 2\<rparr>) = too_many_requests
   \<and> Rate ((new_Response too_many_requests)\<lparr>NextPage := 2\<rparr>) = \<lparr>Limit = 0, Remaining = 0, Reset = Time 0 0\<rparr>"
proof -
  have 1: "client (sample_client too_many_requests) = Some (serve too_many_requests)"
    by (rule sample_client_client)
  have 2: "serve too_many_requests sample_request = Inr too_many_requests"
    by (simp add: serve_def)
  have 3: "populatePageValues (new_Response too_many_requests)
      = Inr ((new_Response too_many_requests)\<lparr>NextPage := 2\<rparr>)"
    by code_simp
  show ?thesis
    using Do_envelope [OF 1 2 3, of Buffer_Write Decode_any None] by simp
qed

text \<open>
  C3.  The claim that every malformed entry of the \<open>Link\<close> header is skipped without a
  failure does not hold of the code: an entry with two segments, a URL with a numeric
  page and a second segment without \<open>=\<close> makes the index expression
  \<open>strings.Split(segments[1], "=")[1]\<close> panic, so that the entry before it is lost too.
\<close>

theorem populatePageValues_missing_rel_panics:
  "populatePageValues (new_Response \<lparr>StatusCode = 200,
      Header = [(''Link'', [''<https://x/items?page=2>; rel=\"next\", <https://x/items?page=5>; last''])],
      Body = plain_body ''[]''\<rparr>) = Inl (IndexOutOfRange 1 1)"
  by code_simp

text \<open>
  C8.  A base-URL option whose argument does not parse leaves the client as it is:
  constructing with it, anywhere in the sequence of options, gives the client that the
  sequence without it gives, and alone it keeps the default base URL.  \<open>NewClient\<close> has
  no error result.
\<close>

theorem WithBaseURL_unparsable:
  assumes "url_Parse url = Inl err"
  shows "WithBaseURL url c = c
       \<and> NewClient net (pre @ WithBaseURL url # post) = NewClient net (pre @ post)
       \<and> baseURL (NewClient net [WithBaseURL url]) = baseURL (NewClient net [])"
  using assms by (simp add: WithBaseURL_def NewClient_def)

theorem WithBaseURL_unparsable_witness:
  "NewClient refused [WithAPIKey ''tok'', WithBaseURL ''://api.example.com'', WithUserAgent ''cli/1'']
     = NewClient refused [WithAPIKey ''tok'', WithUserAgent ''cli/1'']
   \<and> baseURL (NewClient refused [WithBaseURL ''://api.example.com''])
     = Some (empty_URL\<lparr>Scheme := ''https'', Host := ''api.sevalla.com'', Path := ''/v2''\<rparr>)"
proof -
  have 1: "url_Parse ''://api.example.com'' = Inl (OtherError ''missing protocol scheme'')"
    by code_simp
  have 2: "baseURL (NewClient refused []) = Some (empty_URL\<lparr>Scheme := ''https'', Host := ''api.sevalla.com'', Path := ''/v2''\<rparr>)"
    by code_simp
  show ?thesis
    using WithBaseURL_unparsable [OF 1, of _ refused "[WithAPIKey ''tok'']" "[WithUserAgent ''cli/1'']"]
    by (simp add: 2)
qed

text \<open>
  C9.  The claim that \<open>Do\<close> returns success on every response with status 204 does not
  hold of the code, for the reason given under C3: the \<open>Link\<close> header is parsed before
  the status code is looked at, and on a 204 response whose \<open>Link\<close> header has an entry
  without \<open>=\<close> the call panics.
\<close>

theorem Do_no_content_panics:
  "Do Buffer_Write Decode_any (sample_client no_content_bad_link) sample_request (Some (Value JNull))
   = Inl (IndexOutOfRange 1 1)"
  by code_simp

text \<open>
  On every 204 response that passes the parsing of the \<open>Link\<close> header, \<open>Do\<close> returns a
  nil error and the destination as it was.
\<close>

lemma Do_no_content:
  assumes "client c = Some send" and "send req = Inr resp"
    and "populatePageValues (new_Response resp) = Inr response"
    and "StatusCode resp = 204"
  shows "Do wr dec c req v = Inr (Some response, None, v)"
  using assms by (simp add: Do_received CheckResponse_success StatusNoContent_def)

subsection \<open>Parsing and resolving plain paths\<close>

lemma byte_eq_iff: "byte c = byte d \<longleftrightarrow> c = d"
  by (simp add: byte_def)











































subsection \<open>Decoding the error body\<close>

lemma find_field_exact: "k \<in> set names \<Longrightarrow> find_field names k = Some k"
  by (simp add: find_field_def)

lemma store_string_JString: "is_JString v \<Longrightarrow> fst (store_string v old) = False"
  by (cases v) (simp_all add: is_JString_def store_string_def)

lemma store_detail_ok:
  assumes "detail_member_ok kv"
  shows "fst (store_ErrorDetail_member kv (False, d)) = False"
proof (cases "fst kv \<in> set [''field'', ''code'', ''message'']")
  case True
  then have f: "find_field [''field'', ''code'', ''message''] (fst kv) = Some (fst kv)"
    by (rule find_field_exact)
  have s: "is_JString (snd kv)"
    using assms True by (simp add: detail_member_ok_def)
  show ?thesis
    unfolding store_ErrorDetail_member_def f
    by (simp add: store_string_JString [OF s])
next
  case False
  then have f: "find_field [''field'', ''code'', ''message''] (fst kv) = None"
    using assms by (simp add: detail_member_ok_def)
  show ?thesis
    unfolding store_ErrorDetail_member_def f by simp
qed

lemma fold_detail_ok:
  "list_all detail_member_ok kvs \<Longrightarrow> fst (fold store_ErrorDetail_member kvs (False, d)) = False"
proof (induction kvs arbitrary: d)
  case Nil
  show ?case by simp
next
  case (Cons kv kvs)
  obtain d' where step: "store_ErrorDetail_member kv (False, d) = (False, d')"
    using store_detail_ok [of kv d] Cons.prems
    by (cases "store_ErrorDetail_member kv (False, d)") auto
  show ?case
    using Cons.IH [of d'] Cons.prems by (simp add: step)
qed

lemma decode_detail_ok: "conforming_detail j \<Longrightarrow> fst (decode_ErrorDetail j old) = False"
  unfolding conforming_detail_def decode_ErrorDetail_def
  by (cases j) (simp_all add: fold_detail_ok)

lemma decode_Errors_ok:
  assumes "list_all conforming_detail xs"
  shows "fst (decode_Errors (JArray xs) old) = False"
proof -
  have "\<not> fst (decode_ErrorDetail (xs ! i) d)" if "i < length xs" for i d
    using assms that decode_detail_ok [of "xs ! i" d] by (simp add: list_all_length)
  then show ?thesis
    unfolding decode_Errors_def Let_def by (auto simp: list_ex_iff)
qed

text \<open>One member of a conforming body: no type error, and the three strings as expected.\<close>

lemma store_member_ok:
  assumes "member_ok kv"
  shows "fst (store_ErrorResponse_member kv (False, e)) = False"
    and "Message (snd (store_ErrorResponse_member kv (False, e)))
         = (if fst kv = ''message'' then (case snd kv of JString x \<Rightarrow> x | _ \<Rightarrow> []) else Message e)"
    and "Code (snd (store_ErrorResponse_member kv (False, e)))
         = (if fst kv = ''code'' then (case snd kv of JString x \<Rightarrow> x | _ \<Rightarrow> []) else Code e)"
    and "RequestID (snd (store_ErrorResponse_member kv (False, e)))
         = (if fst kv = ''request_id'' then (case snd kv of JString x \<Rightarrow> x | _ \<Rightarrow> []) else RequestID e)"
proof -
  consider (msg) "fst kv = ''message''" | (code) "fst kv = ''code''" | (rid) "fst kv = ''request_id''"
    | (errs) "fst kv = ''errors''" | (other) "fst kv \<notin> set ErrorResponse_fields"
    by (auto simp: ErrorResponse_fields_def)
  then have "fst (store_ErrorResponse_member kv (False, e)) = False
    \<and> Message (snd (store_ErrorResponse_member kv (False, e)))
         = (if fst kv = ''message'' then (case snd kv of JString x \<Rightarrow> x | _ \<Rightarrow> []) else Message e)
    \<and> Code (snd (store_ErrorResponse_member kv (False, e)))
         = (if fst kv = ''code'' then (case snd kv of JString x \<Rightarrow> x | _ \<Rightarrow> []) else Code e)
    \<and> RequestID (snd (store_ErrorResponse_member kv (False, e)))
         = (if fst kv = ''request_id'' then (case snd kv of JString x \<Rightarrow> x | _ \<Rightarrow> []) else RequestID e)"
  proof cases
    case msg
    then have f: "find_field ErrorResponse_fields (fst kv) = Some ''message''"
      by (simp add: find_field_exact ErrorResponse_fields_def)
    from msg assms obtain x where "snd kv = JString x"
      by (auto simp: member_ok_def is_JString_def split: json.splits)
    then show ?thesis
      unfolding store_ErrorResponse_member_def f using msg by (simp add: store_string_def)
  next
    case code
    then have f: "find_field ErrorResponse_fields (fst kv) = Some ''code''"
      by (simp add: find_field_exact ErrorResponse_fields_def)
    from code assms obtain x where "snd kv = JString x"
      by (auto simp: member_ok_def is_JString_def split: json.splits)
    then show ?thesis
      unfolding store_ErrorResponse_member_def f using code by (simp add: store_string_def)
  next
    case rid
    then have f: "find_field ErrorResponse_fields (fst kv) = Some ''request_id''"
      by (simp add: find_field_exact ErrorResponse_fields_def)
    from rid assms obtain x where "snd kv = JString x"
      by (auto simp: member_ok_def is_JString_def split: json.splits)
    then show ?thesis
      unfolding store_ErrorResponse_member_def f using rid by (simp add: store_string_def)
  next
    case errs
    then have f: "find_field ErrorResponse_fields (fst kv) = Some ''errors''"
      by (simp add: find_field_exact ErrorResponse_fields_def)
    from errs assms obtain xs where xs: "snd kv = JArray xs" "list_all conforming_detail xs"
      by (auto simp: member_ok_def split: json.splits)
    show ?thesis
      unfolding store_ErrorResponse_member_def f using errs xs
      by (simp add: decode_Errors_ok)
  next
    case other
    then have "find_field ErrorResponse_fields (fst kv) = None"
      using assms by (auto simp: member_ok_def ErrorResponse_fields_def)
    then show ?thesis
      unfolding store_ErrorResponse_member_def using other
      by (auto simp: ErrorResponse_fields_def)
  qed
  then show "fst (store_ErrorResponse_member kv (False, e)) = False"
    and "Message (snd (store_ErrorResponse_member kv (False, e)))
         = (if fst kv = ''message'' then (case snd kv of JString x \<Rightarrow> x | _ \<Rightarrow> []) else Message e)"
    and "Code (snd (store_ErrorResponse_member kv (False, e)))
         = (if fst kv = ''code'' then (case snd kv of JString x \<Rightarrow> x | _ \<Rightarrow> []) else Code e)"
    and "RequestID (snd (store_ErrorResponse_member kv (False, e)))
         = (if fst kv = ''request_id'' then (case snd kv of JString x \<Rightarrow> x | _ \<Rightarrow> []) else RequestID e)"
    by simp_all
qed

lemma string_member_Cons:
  "string_member (kv # kvs) k
   = (if fst kv = k then (case snd kv of JString x \<Rightarrow> x | _ \<Rightarrow> []) else string_member kvs k)"
  by (cases kv) (simp add: string_member_def)

lemma fold_members_ok:
  assumes "distinct (map fst kvs)" and "list_all member_ok kvs"
  shows "fst (fold store_ErrorResponse_member kvs (False, e)) = False
       \<and> Message (snd (fold store_ErrorResponse_member kvs (False, e)))
           = (if ''message'' \<in> set (map fst kvs) then string_member kvs ''message'' else Message e)
       \<and> Code (snd (fold store_ErrorResponse_member kvs (False, e)))
           = (if ''code'' \<in> set (map fst kvs) then string_member kvs ''code'' else Code e)
       \<and> RequestID (snd (fold store_ErrorResponse_member kvs (False, e)))
           = (if ''request_id'' \<in> set (map fst kvs) then string_member kvs ''request_id''
              else RequestID e)"
  using assms
proof (induction kvs arbitrary: e)
  case Nil
  show ?case by simp
next
  case (Cons kv kvs)
  from Cons.prems have ok: "member_ok kv" and fresh: "fst kv \<notin> set (map fst kvs)"
    and d: "distinct (map fst kvs)" and rest: "list_all member_ok kvs"
    by simp_all
  obtain e1 where step: "store_ErrorResponse_member kv (False, e) = (False, e1)"
    using store_member_ok(1) [OF ok, of e]
    by (cases "store_ErrorResponse_member kv (False, e)") auto
  have e1: "Message e1 = (if fst kv = ''message'' then (case snd kv of JString x \<Rightarrow> x | _ \<Rightarrow> []) else Message e)"
    "Code e1 = (if fst kv = ''code'' then (case snd kv of JString x \<Rightarrow> x | _ \<Rightarrow> []) else Code e)"
    "RequestID e1 = (if fst kv = ''request_id'' then (case snd kv of JString x \<Rightarrow> x | _ \<Rightarrow> []) else RequestID e)"
    using store_member_ok(2,3,4) [OF ok, of e] by (simp_all add: step)
  note IH = Cons.IH [OF d rest, of e1]
  have fold: "fold store_ErrorResponse_member (kv # kvs) (False, e)
      = fold store_ErrorResponse_member kvs (False, e1)"
    by (simp add: step)
  show ?case
    unfolding fold string_member_Cons
    using IH fresh e1 by (auto simp: image_iff)
qed

lemma string_member_absent: "k \<notin> set (map fst kvs) \<Longrightarrow> string_member kvs k = []"
  by (simp add: string_member_def map_of_eq_None_iff [THEN iffD2])

lemma Unmarshal_conforming:
  assumes "json_parse dat = Some (JObject kvs)" and "conforming_error_body (JObject kvs)"
    and "Message e = []" and "Code e = []" and "RequestID e = []"
  shows "fst (json_Unmarshal_ErrorResponse dat e) = None
       \<and> Message (snd (json_Unmarshal_ErrorResponse dat e)) = string_member kvs ''message''
       \<and> Code (snd (json_Unmarshal_ErrorResponse dat e)) = string_member kvs ''code''
       \<and> RequestID (snd (json_Unmarshal_ErrorResponse dat e)) = string_member kvs ''request_id''"
proof -
  from assms(2) have d: "distinct (map fst kvs)" and ok: "list_all member_ok kvs"
    by (simp_all add: conforming_error_body_def)
  note f = fold_members_ok [OF d ok, of e]
  have dec: "decode_ErrorResponse (JObject kvs) e = fold store_ErrorResponse_member kvs (False, e)"
    by (simp add: decode_ErrorResponse_def)
  show ?thesis
    unfolding json_Unmarshal_ErrorResponse_def assms(1)
    using f assms(3,4,5) by (auto simp: dec string_member_absent)
qed

lemma Unmarshal_rejects:
  "fst (json_Unmarshal_ErrorResponse dat e) \<noteq> None \<longleftrightarrow>
   (json_parse dat = None \<or> (\<exists>j. json_parse dat = Some j \<and> fst (decode_ErrorResponse j e)))"
  unfolding json_Unmarshal_ErrorResponse_def
  by (auto split: option.splits)

lemma CheckResponse_Message:
  assumes "\<not> (200 \<le> StatusCode r \<and> StatusCode r \<le> 299)" and "Body r = plain_body dat"
  shows "\<exists>e. CheckResponse r = Some (ErrorResponsePtr (Some e))
     \<and> e = (if dat = [] then \<lparr>Response = Some r, Message = [], Code = [], RequestID = [], Errors = []\<rparr>
            else if fst (json_Unmarshal_ErrorResponse dat
                   \<lparr>Response = Some r, Message = [], Code = [], RequestID = [], Errors = []\<rparr>) \<noteq> None
            then (snd (json_Unmarshal_ErrorResponse dat
                   \<lparr>Response = Some r, Message = [], Code = [], RequestID = [], Errors = []\<rparr>))
                 \<lparr>Message := dat\<rparr>
            else snd (json_Unmarshal_ErrorResponse dat
                   \<lparr>Response = Some r, Message = [], Code = [], RequestID = [], Errors = []\<rparr>))"
  using assms
  unfolding CheckResponse_def Let_def io_ReadAll_def plain_body_def
  by (auto split: prod.splits option.splits)

text \<open>
  C4, as stated: for every body that does not conform to the documented shape, the message
  of the typed error is the raw body text.  This fails: a body that is a JSON object
  without a member \<open>message\<close> decodes without an error, and the message stays empty.
\<close>

theorem CheckResponse_other_shape_counterexample:
  "CheckResponse error_other_shape
     = Some (ErrorResponsePtr (Some \<lparr>Response = Some error_other_shape, Message = [], Code = [],
                                       RequestID = [], Errors = []\<rparr>))
   \<and> data (Body error_other_shape) = ''{\"error\":\"boom\"}''
   \<and> json_parse (data (Body error_other_shape)) = Some (JObject [(''error'', JString ''boom'')])
   \<and> \<not> conforming_error_body (JObject [(''error'', JString ''boom'')])"
  by code_simp

lemma json_parse_empty: "json_parse [] = None"
  by code_simp

lemma fold_no_field:
  "\<forall>kv\<in>set kvs. find_field ErrorResponse_fields (fst kv) = None \<Longrightarrow>
   fold store_ErrorResponse_member kvs st = st"
  by (induction kvs arbitrary: st) (simp_all add: store_ErrorResponse_member_def)

lemma decode_not_object:
  "(case j of JObject kvs \<Rightarrow> False | JNull \<Rightarrow> False | _ \<Rightarrow> True) \<Longrightarrow> fst (decode_ErrorResponse j e)"
  by (cases j) (simp_all add: decode_ErrorResponse_def)

text \<open>
  C4, amended.  For every response with a status code outside [200,299] whose body is read
  completely: when the body is a JSON document of the documented shape, the fields
  \<open>Message\<close>, \<open>Code\<close> and \<open>RequestID\<close> of the typed error equal the members
  \<open>message\<close>, \<open>code\<close> and \<open>request_id\<close> (empty when absent); when the body is not a
  JSON document, or is a JSON value other than an object or \<open>null\<close>, or a member has the
  wrong JSON type, \<open>Message\<close> is the raw body text; when the body is JSON \<open>null\<close> or an
  object none of whose members matches a field, \<open>Message\<close> stays empty.
\<close>

theorem CheckResponse_error_body:
  assumes "\<not> (200 \<le> StatusCode r \<and> StatusCode r \<le> 299)" and "Body r = plain_body dat"
  shows "\<exists>e. CheckResponse r = Some (ErrorResponsePtr (Some e)) \<and> Response e = Some r
     \<and> (\<forall>kvs. json_parse dat = Some (JObject kvs) \<and> conforming_error_body (JObject kvs) \<longrightarrow>
            Message e = string_member kvs ''message'' \<and> Code e = string_member kvs ''code''
          \<and> RequestID e = string_member kvs ''request_id'')
     \<and> (json_parse dat = None \<longrightarrow> Message e = dat)
     \<and> (\<forall>j. json_parse dat = Some j
              \<and> (case j of JObject kvs \<Rightarrow> False | JNull \<Rightarrow> False | _ \<Rightarrow> True) \<longrightarrow> Message e = dat)
     \<and> (\<forall>j. json_parse dat = Some j
              \<and> fst (decode_ErrorResponse j
                   \<lparr>Response = Some r, Message = [], Code = [], RequestID = [], Errors = []\<rparr>) \<longrightarrow>
            Message e = dat)
     \<and> (json_parse dat = Some JNull \<longrightarrow> Message e = [])
     \<and> (\<forall>kvs. json_parse dat = Some (JObject kvs)
              \<and> (\<forall>kv\<in>set kvs. find_field ErrorResponse_fields (fst kv) = None) \<longrightarrow> Message e = [])"
proof -
  let ?e0 = "\<lparr>Response = Some r, Message = [], Code = [], RequestID = [], Errors = []\<rparr>"
  let ?u = "json_Unmarshal_ErrorResponse dat ?e0"
  from CheckResponse_Message [OF assms] obtain e
    where chk: "CheckResponse r = Some (ErrorResponsePtr (Some e))"
      and e: "e = (if dat = [] then ?e0 else if fst ?u \<noteq> None then (snd ?u)\<lparr>Message := dat\<rparr> else snd ?u)"
    by blast
  have resp: "Response e = Some r"
    unfolding e using Unmarshal_Response [of dat ?e0] by simp
  have conf: "Message e = string_member kvs ''message'' \<and> Code e = string_member kvs ''code''
          \<and> RequestID e = string_member kvs ''request_id''"
    if "json_parse dat = Some (JObject kvs)" and "conforming_error_body (JObject kvs)" for kvs
  proof -
    have "dat \<noteq> []" using that(1) json_parse_empty by auto
    moreover note Unmarshal_conforming [OF that, of ?e0]
    ultimately show ?thesis unfolding e by simp
  qed
  have rej: "Message e = dat" if "fst ?u \<noteq> None"
    unfolding e using that by simp
  have nojson: "Message e = dat" if "json_parse dat = None"
  proof -
    have "fst ?u \<noteq> None" unfolding Unmarshal_rejects using that by blast
    then show ?thesis by (rule rej)
  qed
  have typeerr: "Message e = dat"
    if "json_parse dat = Some j" and "fst (decode_ErrorResponse j ?e0)" for j
  proof -
    have "fst ?u \<noteq> None" unfolding Unmarshal_rejects using that by blast
    then show ?thesis by (rule rej)
  qed
  have kind: "Message e = dat"
    if "json_parse dat = Some j" and "(case j of JObject kvs \<Rightarrow> False | JNull \<Rightarrow> False | _ \<Rightarrow> True)" for j
    using typeerr [OF that(1)] decode_not_object [OF that(2)] by simp
  have null: "Message e = []" if "json_parse dat = Some JNull"
    unfolding e json_Unmarshal_ErrorResponse_def that
    by (simp add: decode_ErrorResponse_def)
  have nofield: "Message e = []"
    if "json_parse dat = Some (JObject kvs)"
      and "\<forall>kv\<in>set kvs. find_field ErrorResponse_fields (fst kv) = None" for kvs
    unfolding e json_Unmarshal_ErrorResponse_def that(1)
    by (simp add: decode_ErrorResponse_def fold_no_field [OF that(2)])
  show ?thesis
  proof (intro exI [of _ e] conjI allI impI)
    show "CheckResponse r = Some (ErrorResponsePtr (Some e))" by (rule chk)
    show "Response e = Some r" by (rule resp)
    show "Message e = string_member kvs ''message''" "Code e = string_member kvs ''code''"
      "RequestID e = string_member kvs ''request_id''"
      if "json_parse dat = Some (JObject kvs) \<and> conforming_error_body (JObject kvs)" for kvs
      using conf [of kvs] that by simp_all
    show "Message e = dat" if "json_parse dat = None"
      using that by (rule nojson)
    show "Message e = dat"
      if "json_parse dat = Some j \<and> (case j of JObject kvs \<Rightarrow> False | JNull \<Rightarrow> False | _ \<Rightarrow> True)" for j
      using kind [of j] that by simp
    show "Message e = dat"
      if "json_parse dat = Some j \<and> fst (decode_ErrorResponse j ?e0)" for j
      using typeerr [of j] that by simp
    show "Message e = []" if "json_parse dat = Some JNull"
      using that by (rule null)
    show "Message e = []"
      if "json_parse dat = Some (JObject kvs)
          \<and> (\<forall>kv\<in>set kvs. find_field ErrorResponse_fields (fst kv) = None)" for kvs
      using nofield [of kvs] that by simp
  qed
qed

theorem CheckResponse_error_body_witness:
  "\<exists>e. CheckResponse not_found = Some (ErrorResponsePtr (Some e)) \<and> Response e = Some not_found
     \<and> Message e = ''Application not found'' \<and> Code e = ''RESOURCE_NOT_FOUND'' \<and> RequestID e = []"
proof -
  let ?kvs = "[(''message'', JString ''Application not found''), (''code'', JString ''RESOURCE_NOT_FOUND'')]"
  have 1: "\<not> (200 \<le> StatusCode not_found \<and> StatusCode not_found \<le> 299)"
    by (simp add: not_found_def)
  have 2: "Body not_found = plain_body ''{\"message\":\"Application not found\",\"code\":\"RESOURCE_NOT_FOUND\"}''"
    by (simp add: not_found_def)
  have 3: "json_parse ''{\"message\":\"Application not found\",\"code\":\"RESOURCE_NOT_FOUND\"}''
      = Some (JObject ?kvs)"
    by code_simp
  have 4: "conforming_error_body (JObject ?kvs)"
    by code_simp
  have 5: "string_member ?kvs ''message'' = ''Application not found''"
    "string_member ?kvs ''code'' = ''RESOURCE_NOT_FOUND''" "string_member ?kvs ''request_id'' = []"
    by code_simp+
  from CheckResponse_error_body [OF 1 2] obtain e where
    "CheckResponse not_found = Some (ErrorResponsePtr (Some e))" "Response e = Some not_found"
    and "\<forall>kvs. json_parse ''{\"message\":\"Application not found\",\"code\":\"RESOURCE_NOT_FOUND\"}'' = Some (JObject kvs)
           \<and> conforming_error_body (JObject kvs) \<longrightarrow>
            Message e = string_member kvs ''message'' \<and> Code e = string_member kvs ''code''
          \<and> RequestID e = string_member kvs ''request_id''"
    by blast
  with 3 4 5 show ?thesis by metis
qed

end
